theory Spec2Isabelle
  imports Complex_Main
begin

section \<open>Data model (write.ts, lines 12-17 and 92-96)\<close>

text \<open>
  JavaScript numbers are IEEE-754 doubles. The development does not fix their arithmetic:
  the number type is a type variable \<open>'n\<close>, and the literal \<open>0\<close> and the operations the
  source uses on numbers are fields of the record \<open>lib\<close> below, so every theorem holds for
  whatever \<open>/\<close>, \<open>>\<close>, \<open>=== 0\<close> and number printing do, in particular for what they
  do on doubles (infinities and NaN included).
\<close>

text \<open>
  Modelled from the spec: the types \<open>ToolType\<close>, \<open>BenchmarkResult\<close>, \<open>Benchmark\<close>
  and \<open>Config\<close> are imported by write.ts from the modules ./config and ./extract. Their
  fields are the ones write.ts reads; records are extensible, so further fields (commit
  metadata, a date) ride along in the record's extension.
\<close>

datatype ToolType = Cargo | Go | Benchmarkjs | Pytest

record 'n BenchmarkResult =
  bench_name :: string
  bench_value :: 'n
  bench_unit :: string
  bench_range :: "string option"

record Commit =
  commit_id :: string

record 'n Benchmark =
  commit :: Commit
  tool :: ToolType
  benches :: "'n BenchmarkResult list"

record 'n DataJson =
  lastUpdate :: 'n
  repoUrl :: string
  entries :: "string \<rightharpoonup> 'n Benchmark list"

record 'n Alert =
  alert_current :: "'n BenchmarkResult"
  alert_prev :: "'n BenchmarkResult"
  alert_ratio :: 'n

record 'n Config =
  config_name :: string
  config_tool :: ToolType
  ghPagesBranch :: string
  benchmarkDataDirPath :: string
  githubToken :: "string option"
  autoPush :: bool
  skipFetchGhPages :: bool
  commentOnAlert :: bool
  alertThreshold :: 'n
  failOnAlert :: bool
  alertCommentCcUsers :: "string list"

text \<open>
  What write.ts takes from the language, from Node and from the module
  ./default_index_html: number arithmetic, \<open>JSON.parse\<close> (\<open>None\<close> when it throws; its result is typed
  \<open>DataJson\<close> by the source, and documents of another shape are outside the model),
  \<open>JSON.stringify(data, null, 2)\<close>, \<open>path.join\<close>, the constant
  \<open>DEFAULT_INDEX_HTML\<close>, and which property names every plain object inherits from
  \<open>Object.prototype\<close>.
\<close>

record 'n lib =
  num_zero :: 'n
  num_div :: "'n \<Rightarrow> 'n \<Rightarrow> 'n"
  num_gt :: "'n \<Rightarrow> 'n \<Rightarrow> bool"
  num_is_zero :: "'n \<Rightarrow> bool"
  num_to_string :: "'n \<Rightarrow> string"
  JSON_parse :: "string \<Rightarrow> 'n DataJson option"
  JSON_stringify :: "'n DataJson \<Rightarrow> string"
  path_join :: "string \<Rightarrow> string \<Rightarrow> string"
  DEFAULT_INDEX_HTML :: string
  inherited_property :: "string \<Rightarrow> bool"

section \<open>Regression detection (write.ts, lines 79-122)\<close>

fun biggerIsBetter :: "ToolType \<Rightarrow> bool" where
  "biggerIsBetter Cargo = False"
| "biggerIsBetter Go = False"
| "biggerIsBetter Benchmarkjs = True"
| "biggerIsBetter Pytest = True"

text \<open>
  The body of the \<open>for\<close> loop of \<open>findAlerts\<close>: \<open>alerts\<close> is the array built so
  far, \<open>alerts.push\<close> appends at its end, \<open>continue\<close> goes on with the rest.
\<close>

fun findAlerts_loop ::
  "'n lib \<Rightarrow> ToolType \<Rightarrow> 'n BenchmarkResult list \<Rightarrow> 'n \<Rightarrow>
   'n BenchmarkResult list \<Rightarrow> 'n Alert list \<Rightarrow> 'n Alert list" where
  "findAlerts_loop L t prevBenches threshold [] alerts = alerts"
| "findAlerts_loop L t prevBenches threshold (current # rest) alerts =
     (case find (\<lambda>b. bench_name b = bench_name current) prevBenches of
        None \<Rightarrow> findAlerts_loop L t prevBenches threshold rest alerts
      | Some prev \<Rightarrow>
          (let ratio = (if biggerIsBetter t
                        then num_div L (bench_value prev) (bench_value current)
                        else num_div L (bench_value current) (bench_value prev))
           in if num_gt L ratio threshold
              then findAlerts_loop L t prevBenches threshold rest
                     (alerts @ [\<lparr>alert_current = current, alert_prev = prev, alert_ratio = ratio\<rparr>])
              else findAlerts_loop L t prevBenches threshold rest alerts))"

definition findAlerts :: "'n lib \<Rightarrow> 'n Benchmark \<Rightarrow> 'n Benchmark \<Rightarrow> 'n \<Rightarrow> 'n Alert list" where
  "findAlerts L curEntry prevEntry threshold =
     findAlerts_loop L (tool curEntry) (benches prevEntry) threshold (benches curEntry) []"

text \<open>
  The detector as the specification words it: the ratio of one compared measurement, by
  polarity, and one optional Alert per current measurement.
\<close>

definition spec_ratio :: "'n lib \<Rightarrow> ToolType \<Rightarrow> 'n BenchmarkResult \<Rightarrow> 'n BenchmarkResult \<Rightarrow> 'n" where
  "spec_ratio L t baseline current =
     (case t of
        Benchmarkjs \<Rightarrow> num_div L (bench_value baseline) (bench_value current)
      | Pytest \<Rightarrow> num_div L (bench_value baseline) (bench_value current)
      | Cargo \<Rightarrow> num_div L (bench_value current) (bench_value baseline)
      | Go \<Rightarrow> num_div L (bench_value current) (bench_value baseline))"

definition spec_alert_of ::
  "'n lib \<Rightarrow> ToolType \<Rightarrow> 'n BenchmarkResult list \<Rightarrow> 'n \<Rightarrow> 'n BenchmarkResult \<Rightarrow> 'n Alert option" where
  "spec_alert_of L t baselineBenches threshold current =
     (case find (\<lambda>b. bench_name b = bench_name current) baselineBenches of
        None \<Rightarrow> None
      | Some baseline \<Rightarrow>
          if num_gt L (spec_ratio L t baseline current) threshold
          then Some \<lparr>alert_current = current, alert_prev = baseline,
                     alert_ratio = spec_ratio L t baseline current\<rparr>
          else None)"

definition spec_detect :: "'n lib \<Rightarrow> 'n Benchmark \<Rightarrow> 'n Benchmark \<Rightarrow> 'n \<Rightarrow> 'n Alert list" where
  "spec_detect L current baseline threshold =
     List.map_filter (spec_alert_of L (tool current) (benches baseline) threshold) (benches current)"

section \<open>Effects: thrown values, external calls, the world (write.ts, lines 1-10)\<close>

text \<open>
  A thrown value is an instance of \<open>Error\<close> with its message, or some other value.
  An \<open>async\<close> function is a state transformer on the world that either resolves with a
  value (\<open>Inr\<close>) or rejects with the thrown value (\<open>Inl\<close>); \<open>await\<close> sequences two of
  them and passes a rejection on. Logging (\<open>core.debug\<close>, \<open>core.warning\<close>,
  \<open>console.log\<close>) has no influence on control flow and is left out.
\<close>

datatype exn = Error string | NonError string

text \<open>
  The calls write.ts makes to its collaborators: the git module (\<open>git.cmd\<close>, \<open>git.pull\<close>,
  \<open>git.push\<close>), \<open>io.mkdirP\<close>, the file system and the commit-comment API
  (\<open>CreateCommitComment auth owner repo commit_sha body\<close>).
\<close>

datatype call =
    GitCmd "string list"
  | GitPull "string option" string "string list"
  | GitPush string string
  | MkdirP string
  | ReadFile string
  | WriteFile string string
  | Stat string
  | CreateCommitComment string string string string string

record Repository =
  html_url :: "string option"
  repo_private :: "bool option"
  owner_login :: string
  repo_name :: string

text \<open>
  The world keeps the files of the working tree and the sequence of calls made so far.
  The environment decides, from the calls made so far, whether the next call throws, how a
  git or directory command changes the working tree, what \<open>Date.now()\<close> returns and the
  URL of a created comment; it also holds the ambient \<open>github.context\<close>: the repository
  of the payload, the workflow name, and the payload printed as JSON (used in one error
  message). A file system call leaves the files as they are, but for a successful write.
\<close>

record world =
  files :: "string \<rightharpoonup> string"
  calls :: "call list"

record 'n env =
  throws :: "call list \<Rightarrow> call \<Rightarrow> exn option"
  worktree :: "call list \<Rightarrow> call \<Rightarrow> (string \<rightharpoonup> string) \<Rightarrow> (string \<rightharpoonup> string)"
  date_now :: "call list \<Rightarrow> 'n"
  comment_html_url :: "call list \<Rightarrow> string"
  payload_repository :: "Repository option"
  context_workflow :: string
  payload_json :: string

type_synonym 'a async = "world \<Rightarrow> (exn + 'a) \<times> world"

definition resolve :: "'a \<Rightarrow> 'a async" where
  "resolve v w = (Inr v, w)"

definition reject :: "exn \<Rightarrow> 'a async" where
  "reject e w = (Inl e, w)"

definition await :: "'a async \<Rightarrow> ('a \<Rightarrow> 'b async) \<Rightarrow> 'b async" where
  "await m f w = (case m w of (Inl e, w') \<Rightarrow> (Inl e, w') | (Inr v, w') \<Rightarrow> f v w')"

definition try_catch :: "'a async \<Rightarrow> (exn \<Rightarrow> 'a async) \<Rightarrow> 'a async" where
  "try_catch m handler w = (case m w of (Inl e, w') \<Rightarrow> handler e w' | (Inr v, w') \<Rightarrow> (Inr v, w'))"

text \<open>
  \<open>try { m } finally { fin }\<close>: \<open>fin\<close> runs whatever \<open>m\<close> did; when \<open>fin\<close> throws, its
  error replaces the outcome of \<open>m\<close>.
\<close>

definition try_finally :: "'a async \<Rightarrow> unit async \<Rightarrow> 'a async" where
  "try_finally m fin w =
     (case m w of (r, w') \<Rightarrow>
        (case fin w' of (Inl e, w'') \<Rightarrow> (Inl e, w'') | (Inr u, w'') \<Rightarrow> (r, w'')))"

fun after_call ::
  "'n env \<Rightarrow> call list \<Rightarrow> call \<Rightarrow> bool \<Rightarrow> (string \<rightharpoonup> string) \<Rightarrow> (string \<rightharpoonup> string)" where
  "after_call E h (WriteFile p s) ok fs = (if ok then fs(p \<mapsto> s) else fs)"
| "after_call E h (ReadFile p) ok fs = fs"
| "after_call E h (Stat p) ok fs = fs"
| "after_call E h c ok fs = worktree E h c fs"

definition perform :: "'n env \<Rightarrow> call \<Rightarrow> unit async" where
  "perform E c w =
     (case throws E (calls w) c of
        Some e \<Rightarrow> (Inl e, \<lparr>files = after_call E (calls w) c False (files w), calls = calls w @ [c]\<rparr>)
      | None \<Rightarrow> (Inr (), \<lparr>files = after_call E (calls w) c True (files w), calls = calls w @ [c]\<rparr>))"

definition git_cmd :: "'n env \<Rightarrow> string list \<Rightarrow> unit async" where
  "git_cmd E args = perform E (GitCmd args)"

definition git_pull :: "'n env \<Rightarrow> string option \<Rightarrow> string \<Rightarrow> string list \<Rightarrow> unit async" where
  "git_pull E token branch options = perform E (GitPull token branch options)"

definition git_push :: "'n env \<Rightarrow> string \<Rightarrow> string \<Rightarrow> unit async" where
  "git_push E token branch = perform E (GitPush token branch)"

definition io_mkdirP :: "'n env \<Rightarrow> string \<Rightarrow> unit async" where
  "io_mkdirP E dir = perform E (MkdirP dir)"

definition ENOENT :: exn where
  "ENOENT = Error ''ENOENT: no such file or directory''"

definition fs_readFile :: "'n env \<Rightarrow> string \<Rightarrow> string async" where
  "fs_readFile E p =
     await (perform E (ReadFile p))
       (\<lambda>u w. case files w p of None \<Rightarrow> (Inl ENOENT, w) | Some s \<Rightarrow> (Inr s, w))"

definition fs_writeFile :: "'n env \<Rightarrow> string \<Rightarrow> string \<Rightarrow> unit async" where
  "fs_writeFile E p s = perform E (WriteFile p s)"

definition fs_stat :: "'n env \<Rightarrow> string \<Rightarrow> unit async" where
  "fs_stat E p =
     await (perform E (Stat p))
       (\<lambda>u w. case files w p of None \<Rightarrow> (Inl ENOENT, w) | Some s \<Rightarrow> (Inr (), w))"

section \<open>The history file and the viewer page (write.ts, lines 19-57)\<close>

definition SCRIPT_PREFIX :: string where
  "SCRIPT_PREFIX = ''window.BENCHMARK_DATA = ''"

definition empty_default :: "'n lib \<Rightarrow> 'n DataJson" where
  "empty_default L = \<lparr>lastUpdate = num_zero L, repoUrl = '''', entries = Map.empty\<rparr>"

text \<open>
  \<open>script.slice(n)\<close> drops the first \<open>n\<close> characters (everything, when the script is
  shorter). A \<open>JSON.parse\<close> that throws rejects inside the \<open>try\<close>; the \<open>catch\<close> clause
  takes every thrown value.
\<close>

definition loadDataJson :: "'n lib \<Rightarrow> 'n env \<Rightarrow> string \<Rightarrow> 'n DataJson async" where
  "loadDataJson L E dataPath =
     try_catch
       (await (fs_readFile E dataPath) (\<lambda>script.
          let json = drop (length SCRIPT_PREFIX) script in
          case JSON_parse L json of
            None \<Rightarrow> reject (Error ''SyntaxError'')
          | Some parsed \<Rightarrow> resolve parsed))
       (\<lambda>err. resolve (empty_default L))"

definition storeDataJson :: "'n lib \<Rightarrow> 'n env \<Rightarrow> string \<Rightarrow> 'n DataJson \<Rightarrow> unit async" where
  "storeDataJson L E dataPath data =
     (let script = SCRIPT_PREFIX @ JSON_stringify L data
      in fs_writeFile E dataPath script)"

text \<open>
  Lines 44-57, the default viewer page: the \<open>catch\<close> clause takes whatever \<open>fs.stat\<close>
  throws, and the page is then written and staged.
\<close>

definition addIndexHtmlIfNeeded :: "'n lib \<Rightarrow> 'n env \<Rightarrow> string \<Rightarrow> unit async" where
  "addIndexHtmlIfNeeded L E dir =
     (let indexHtml = path_join L dir ''index.html'' in
      (\<lambda>w. case fs_stat E indexHtml w of
              (Inr u, w') \<Rightarrow> (Inr (), w')
            | (Inl e, w') \<Rightarrow>
                await (fs_writeFile E indexHtml (DEFAULT_INDEX_HTML L))
                  (\<lambda>u. git_cmd E [''add'', indexHtml]) w'))"

section \<open>Push with one retry (write.ts, lines 59-77)\<close>

text \<open>\<open>s.includes(t)\<close>: \<open>t\<close> occurs in \<open>s\<close> as a contiguous substring.\<close>

fun str_includes :: "string \<Rightarrow> string \<Rightarrow> bool" where
  "str_includes [] t = (t = [])"
| "str_includes (c # cs) t = (take (length t) (c # cs) = t \<or> str_includes cs t)"

text \<open>
  The \<open>catch\<close> clause rethrows unless the thrown value is an \<open>Error\<close> whose message
  contains the marker; otherwise control falls through to the retry.
\<close>

definition pushGitHubPages :: "'n env \<Rightarrow> string \<Rightarrow> string \<Rightarrow> unit async" where
  "pushGitHubPages E token branch w =
     (case git_push E token branch w of
        (Inr u, w') \<Rightarrow> (Inr (), w')
      | (Inl err, w') \<Rightarrow>
          (case err of
             NonError v \<Rightarrow> (Inl err, w')
           | Error msg \<Rightarrow>
               if \<not> str_includes msg ''[remote rejected]'' then (Inl err, w')
               else await (git_pull E (Some token) branch [''--rebase''])
                      (\<lambda>u. git_push E token branch) w'))"

section \<open>The report and the alert (write.ts, lines 124-248)\<close>

definition getCurrentRepo :: "'n env \<Rightarrow> exn + Repository" where
  "getCurrentRepo E =
     (case payload_repository E of
        None \<Rightarrow> Inl (Error (''Repository information is not available in payload: '' @ payload_json E))
      | Some repo \<Rightarrow> Inr repo)"

text \<open>A value that is a string or \<open>undefined\<close>, as a condition and inside a string.\<close>

definition truthy :: "string option \<Rightarrow> bool" where
  "truthy t = (case t of None \<Rightarrow> False | Some s \<Rightarrow> s \<noteq> [])"

definition str_of :: "string option \<Rightarrow> string" where
  "str_of t = (case t of None \<Rightarrow> ''undefined'' | Some s \<Rightarrow> s)"

fun str_join :: "string \<Rightarrow> string list \<Rightarrow> string" where
  "str_join sep [] = []"
| "str_join sep [x] = x"
| "str_join sep (x # y # ys) = x @ sep @ str_join sep (y # ys)"

definition strOfValue :: "'n lib \<Rightarrow> 'n BenchmarkResult \<Rightarrow> string" where
  "strOfValue L b =
     (let s = ''`'' @ num_to_string L (bench_value b) @ ''` '' @ bench_unit b
      in if truthy (bench_range b) then s @ '' (`'' @ str_of (bench_range b) @ ''`)'' else s)"

definition alert_line :: "'n lib \<Rightarrow> 'n Alert \<Rightarrow> string" where
  "alert_line L a =
     ''| `'' @ bench_name (alert_current a) @ ''` | '' @ strOfValue L (alert_current a) @ '' | ''
       @ strOfValue L (alert_prev a) @ '' | `'' @ num_to_string L (alert_ratio a) @ ''` |''"

definition report_title :: "'n lib \<Rightarrow> 'n \<Rightarrow> string" where
  "report_title L threshold =
     (if num_is_zero L threshold then ''# Performance Report''
      else ''# :warning: **Performance Alert** :warning:'')"

definition buildAlertComment ::
  "'n lib \<Rightarrow> 'n env \<Rightarrow> 'n Alert list \<Rightarrow> string \<Rightarrow> 'n Benchmark \<Rightarrow> 'n Benchmark \<Rightarrow> 'n \<Rightarrow>
   string list \<Rightarrow> exn + string" where
  "buildAlertComment L E alerts benchName curEntry prevEntry threshold cc =
     (let benchmarkText = (if benchName = ''Benchmark'' then '''' else '' **'' @ [CHR 0x27] @ benchName @ [CHR 0x27] @ ''**'');
          title = report_title L threshold;
          lines =
            [title,
             '''',
             ''Possible performance regression was detected for benchmark'' @ benchmarkText @ ''.'',
             ''Benchmark result of this commit is worse than the previous benchmark result exceeding threshold `''
               @ num_to_string L threshold @ ''`.'',
             '''',
             ''| Benchmark suite | Current: '' @ commit_id (commit curEntry) @ '' | Previous: ''
               @ commit_id (commit prevEntry) @ '' | Ratio |'',
             ''|-|-|-|-|'']
            @ map (alert_line L) alerts
      in case getCurrentRepo E of
           Inl e \<Rightarrow> Inl e
         | Inr repo \<Rightarrow>
             (let repoUrl = html_url repo;
                  actionUrl = str_of repoUrl @ ''/actions?query=workflow%3A'' @ context_workflow E;
                  lines2 = lines @
                    ['''',
                     ''This comment was automatically generated by [workflow]('' @ actionUrl
                       @ '') using [github-action-benchmark](https://github.com/rhysd/github-action-benchmark).''];
                  lines3 = (if length cc > 0 then lines2 @ ['''', ''CC: '' @ str_join '' '' cc] else lines2)
              in Inr (str_join [CHR 0x0A] lines3)))"

text \<open>\<open>leaveComment\<close> resolves with the response; the model keeps its \<open>data.html_url\<close>.\<close>

definition leaveComment :: "'n env \<Rightarrow> string \<Rightarrow> string \<Rightarrow> string \<Rightarrow> string async" where
  "leaveComment E commitId body token =
     (case getCurrentRepo E of
        Inl e \<Rightarrow> reject e
      | Inr repo \<Rightarrow>
          await (perform E (CreateCommitComment token (owner_login repo) (repo_name repo) commitId body))
            (\<lambda>u w. (Inr (comment_html_url E (calls w)), w)))"

definition missing_token :: exn where
  "missing_token = Error ([CHR 0x27] @ ''comment-on-alert'' @ [CHR 0x27] @ '' is set but github-token is not set'')"

definition alert ::
  "'n lib \<Rightarrow> 'n env \<Rightarrow> string \<Rightarrow> 'n Benchmark \<Rightarrow> 'n Benchmark \<Rightarrow> 'n \<Rightarrow> string option \<Rightarrow>
   bool \<Rightarrow> bool \<Rightarrow> string list \<Rightarrow> unit async" where
  "alert L E benchName curEntry prevEntry threshold token shouldComment shouldFail ccUsers =
     (if \<not> shouldComment \<and> \<not> shouldFail then resolve ()
      else
        let alerts = findAlerts L curEntry prevEntry threshold in
        if length alerts = 0 then resolve ()
        else
          case buildAlertComment L E alerts benchName curEntry prevEntry threshold ccUsers of
            Inl e \<Rightarrow> reject e
          | Inr body \<Rightarrow>
              await
                (if shouldComment
                 then (case token of
                         None \<Rightarrow> reject missing_token
                       | Some t \<Rightarrow>
                           if t = [] then reject missing_token
                           else await (leaveComment E (commit_id (commit curEntry)) body t)
                                  (\<lambda>url. resolve (body @ [CHR 0x0A] @ ''Comment was generated at '' @ url)))
                 else resolve body)
                (\<lambda>message. if shouldFail then reject (Error message) else resolve ()))"

section \<open>The publish operation (write.ts, lines 250-343)\<close>

text \<open>
  The loop over \<open>entries.slice().reverse()\<close>: the first entry, from the end of the
  sequence, whose commit id differs; \<open>break\<close> ends the loop there.
\<close>

fun prevBench_loop :: "string \<Rightarrow> 'n Benchmark list \<Rightarrow> 'n Benchmark option" where
  "prevBench_loop c [] = None"
| "prevBench_loop c (e # rest) =
     (if commit_id (commit e) \<noteq> c then Some e else prevBench_loop c rest)"

text \<open>
  Lines 285-304, after the load: the two metadata fields are overwritten and the entry is
  added. \<open>data.entries\<close> is a plain object, so \<open>data.entries[name]\<close> also finds what the
  object inherits from \<open>Object.prototype\<close> (\<open>constructor\<close>, \<open>toString\<close>, ...): for such a
  name without an own property the lookup is not \<open>undefined\<close>, the \<open>else\<close> branch runs and
  \<open>entries.slice()\<close> throws a TypeError (an \<open>Error\<close>, with the message below), since the
  inherited value has no \<open>slice\<close>. The names \<open>Object.prototype\<close> defines are the predicate
  \<open>inherited\<close>.
\<close>

definition addBenchmarkResult ::
  "(string \<Rightarrow> bool) \<Rightarrow> 'n \<Rightarrow> string \<Rightarrow> string \<Rightarrow> 'n Benchmark \<Rightarrow> 'n DataJson \<Rightarrow>
   exn + ('n DataJson \<times> 'n Benchmark option)" where
  "addBenchmarkResult inherited now htmlUrl name bench data0 =
     (let data = data0\<lparr>lastUpdate := now, repoUrl := htmlUrl\<rparr> in
      case entries data name of
        None \<Rightarrow>
          if inherited name then Inl (Error ''entries.slice is not a function'')
          else Inr (data\<lparr>entries := (entries data)(name \<mapsto> [bench])\<rparr>, None)
      | Some es \<Rightarrow>
          Inr (data\<lparr>entries := (entries data)(name \<mapsto> es @ [bench])\<rparr>,
               prevBench_loop (commit_id (commit bench)) (rev es)))"

definition tool_name :: "ToolType \<Rightarrow> string" where
  "tool_name t = (case t of Cargo \<Rightarrow> ''cargo'' | Go \<Rightarrow> ''go'' | Benchmarkjs \<Rightarrow> ''benchmarkjs'' | Pytest \<Rightarrow> ''pytest'')"

definition htmlUrl_of :: "'n env \<Rightarrow> string" where
  "htmlUrl_of E =
     (case payload_repository E of
        None \<Rightarrow> ''''
      | Some repo \<Rightarrow> (case html_url repo of None \<Rightarrow> '''' | Some u \<Rightarrow> u))"

definition isPrivateRepo_of :: "'n env \<Rightarrow> bool" where
  "isPrivateRepo_of E =
     (case payload_repository E of
        None \<Rightarrow> False
      | Some repo \<Rightarrow> (case repo_private repo of None \<Rightarrow> False | Some b \<Rightarrow> b))"

text \<open>Lines 274-283: the optional pull and the data directory.\<close>

definition writeBenchmark_fetch :: "'n env \<Rightarrow> 'n Config \<Rightarrow> unit async" where
  "writeBenchmark_fetch E config =
     await
       (if \<not> skipFetchGhPages config \<and> (\<not> isPrivateRepo_of E \<or> truthy (githubToken config))
        then git_pull E (githubToken config) (ghPagesBranch config) []
        else resolve ())
       (\<lambda>u. io_mkdirP E (benchmarkDataDirPath config))"

text \<open>Lines 306-321: store, stage, default page, commit, optional push.\<close>

definition commit_message :: "'n Config \<Rightarrow> 'n Benchmark \<Rightarrow> string" where
  "commit_message config bench =
     ''add '' @ config_name config @ '' ('' @ tool_name (config_tool config)
       @ '') benchmark result for '' @ commit_id (commit bench)"

definition writeBenchmark_commit ::
  "'n lib \<Rightarrow> 'n env \<Rightarrow> 'n Config \<Rightarrow> 'n Benchmark \<Rightarrow> string \<Rightarrow> 'n DataJson \<Rightarrow> unit async" where
  "writeBenchmark_commit L E config bench dataPath data =
     await (storeDataJson L E dataPath data) (\<lambda>u.
     await (git_cmd E [''add'', dataPath]) (\<lambda>u.
     await (addIndexHtmlIfNeeded L E (benchmarkDataDirPath config)) (\<lambda>u.
     await (git_cmd E [''commit'', ''-m'', commit_message config bench]) (\<lambda>u.
       case githubToken config of
         None \<Rightarrow> resolve ()
       | Some t \<Rightarrow>
           if t \<noteq> [] \<and> autoPush config then pushGitHubPages E t (ghPagesBranch config)
           else resolve ()))))"

text \<open>Lines 325-338: the alert check, skipped without a previous benchmark.\<close>

definition writeBenchmark_alert ::
  "'n lib \<Rightarrow> 'n env \<Rightarrow> 'n Config \<Rightarrow> 'n Benchmark \<Rightarrow> 'n Benchmark option \<Rightarrow> unit async" where
  "writeBenchmark_alert L E config bench prevBench =
     (case prevBench of
        None \<Rightarrow> resolve ()
      | Some prev \<Rightarrow>
          alert L E (config_name config) bench prev (alertThreshold config) (githubToken config)
            (commentOnAlert config) (failOnAlert config) (alertCommentCcUsers config))"

text \<open>Lines 274-338, the body of the \<open>try\<close> block.\<close>

definition writeBenchmark_try :: "'n lib \<Rightarrow> 'n env \<Rightarrow> 'n Benchmark \<Rightarrow> 'n Config \<Rightarrow> unit async" where
  "writeBenchmark_try L E bench config =
     (let dataPath = path_join L (benchmarkDataDirPath config) ''data.js'' in
      await (writeBenchmark_fetch E config) (\<lambda>u.
      await (loadDataJson L E dataPath) (\<lambda>data0.
      await (\<lambda>w. (Inr (date_now E (calls w)), w)) (\<lambda>now.
        case addBenchmarkResult (inherited_property L) now (htmlUrl_of E) (config_name config) bench data0 of
          Inl e \<Rightarrow> reject e
        | Inr (data, prevBench) \<Rightarrow>
            await (writeBenchmark_commit L E config bench dataPath data) (\<lambda>u.
              writeBenchmark_alert L E config bench prevBench)))))"

definition writeBenchmark :: "'n lib \<Rightarrow> 'n env \<Rightarrow> 'n Benchmark \<Rightarrow> 'n Config \<Rightarrow> unit async" where
  "writeBenchmark L E bench config =
     await (git_cmd E [''switch'', ghPagesBranch config]) (\<lambda>u.
       try_finally (writeBenchmark_try L E bench config) (git_cmd E [''checkout'', ''-'']))"

section \<open>A concrete library and environment for the examples\<close>

text \<open>
  For concrete examples the number operations are instantiated with exact rational
  arithmetic. On the inputs the examples use (small integers with exact quotients, no zero
  denominator) it agrees with arithmetic on doubles. Integers are printed in decimal; the
  examples print no other number.
\<close>

function show_nat :: "nat \<Rightarrow> string" where
  "show_nat n =
     (if n < 10 then [''0123456789'' ! n]
      else show_nat (n div 10) @ [''0123456789'' ! (n mod 10)])"
  by pat_completeness auto
termination
  by (relation "measure id") auto

definition show_rat :: "rat \<Rightarrow> string" where
  "show_rat q =
     (case quotient_of q of (p, d) \<Rightarrow>
        (if p < 0 then ''-'' else '''') @ show_nat (nat \<bar>p\<bar>)
        @ (if d = 1 then '''' else ''/'' @ show_nat (nat d)))"

text \<open>
  \<open>JSON.stringify(data, null, 2)\<close> for the examples: objects and arrays are printed one
  member per line with an indentation of two spaces, as JavaScript does. A map cannot be
  enumerated, so the printer is told which suite names to print; strings are printed
  without escapes, which the strings of the examples do not need.
\<close>

definition json_str :: "string \<Rightarrow> string" where
  "json_str s = [CHR 0x22] @ s @ [CHR 0x22]"

fun json_commas :: "string list list \<Rightarrow> string list" where
  "json_commas [] = []"
| "json_commas [b] = b"
| "json_commas (b # c # bs) = butlast b @ [last b @ '',''] @ json_commas (c # bs)"

definition json_block :: "string \<Rightarrow> string \<Rightarrow> string list list \<Rightarrow> string list" where
  "json_block opening closing members =
     (if members = [] then [opening @ closing]
      else [opening] @ map (\<lambda>l. ''  '' @ l) (json_commas members) @ [closing])"

definition json_member :: "string \<Rightarrow> string list \<Rightarrow> string list" where
  "json_member key v = (json_str key @ '': '' @ hd v) # tl v"

definition json_bench :: "rat BenchmarkResult \<Rightarrow> string list" where
  "json_bench b =
     json_block ''{'' ''}''
       ([json_member ''name'' [json_str (bench_name b)],
         json_member ''value'' [show_rat (bench_value b)],
         json_member ''unit'' [json_str (bench_unit b)]]
        @ (case bench_range b of None \<Rightarrow> [] | Some r \<Rightarrow> [json_member ''range'' [json_str r]]))"

definition json_entry :: "rat Benchmark \<Rightarrow> string list" where
  "json_entry e =
     json_block ''{'' ''}''
       [json_member ''commit'' (json_block ''{'' ''}'' [json_member ''id'' [json_str (commit_id (commit e))]]),
        json_member ''tool'' [json_str (tool_name (tool e))],
        json_member ''benches'' (json_block ''['' '']'' (map json_bench (benches e)))]"

definition example_stringify :: "string list \<Rightarrow> rat DataJson \<Rightarrow> string" where
  "example_stringify names d =
     str_join ''\<newline>''
       (json_block ''{'' ''}''
          [json_member ''lastUpdate'' [show_rat (lastUpdate d)],
           json_member ''repoUrl'' [json_str (repoUrl d)],
           json_member ''entries''
             (json_block ''{'' ''}''
                (concat (map (\<lambda>n. case entries d n of
                                      None \<Rightarrow> []
                                    | Some es \<Rightarrow> [json_member n (json_block ''['' '']'' (map json_entry es))])
                          names)))])"

definition bench_of :: "string \<Rightarrow> rat \<Rightarrow> rat BenchmarkResult" where
  "bench_of n v = \<lparr>bench_name = n, bench_value = v, bench_unit = ''ns/iter'', bench_range = None\<rparr>"

definition entry_of :: "string \<Rightarrow> ToolType \<Rightarrow> rat BenchmarkResult list \<Rightarrow> rat Benchmark" where
  "entry_of c t bs = \<lparr>commit = \<lparr>commit_id = c\<rparr>, tool = t, benches = bs\<rparr>"

text \<open>
  The history of the examples: one suite with one entry. \<open>JSON.parse\<close> is taken on the
  text of that history only; the other texts the examples parse are not JSON.
\<close>

definition example_doc :: "rat DataJson" where
  "example_doc =
     \<lparr>lastUpdate = 1, repoUrl = ''https://github.com/user/repo'',
      entries = [''Benchmark'' \<mapsto> [entry_of ''c1'' Cargo [bench_of ''fib'' 100]]]\<rparr>"

definition example_json :: string where
  "example_json = example_stringify [''Benchmark''] example_doc"

definition Object_prototype_names :: "string list" where
  "Object_prototype_names =
     [''constructor'', ''hasOwnProperty'', ''isPrototypeOf'', ''propertyIsEnumerable'',
      ''toLocaleString'', ''toString'', ''valueOf'', ''__proto__'', ''__defineGetter__'',
      ''__defineSetter__'', ''__lookupGetter__'', ''__lookupSetter__'']"

definition example_lib :: "rat lib" where
  "example_lib =
     \<lparr>num_zero = 0, num_div = (\<lambda>a b. a / b), num_gt = (\<lambda>a b. a > b),
      num_is_zero = (\<lambda>a. a = 0), num_to_string = show_rat,
      JSON_parse = (\<lambda>s. if s = example_json then Some example_doc else None),
      JSON_stringify = example_stringify [''Benchmark''],
      path_join = (\<lambda>a b. a @ ''/'' @ b), DEFAULT_INDEX_HTML = ''<html></html>'',
      inherited_property = (\<lambda>n. n \<in> set Object_prototype_names)\<rparr>"

text \<open>
  An environment in which no call throws unless listed in \<open>failing\<close>, with the calls made
  before it and the error it throws, and in which no git command touches the files.
\<close>

definition example_repository :: Repository where
  "example_repository =
     \<lparr>html_url = Some ''https://github.com/user/repo'', repo_private = Some False,
      owner_login = ''user'', repo_name = ''repo''\<rparr>"

definition example_env :: "((call list \<times> call) \<times> exn) list \<Rightarrow> rat env" where
  "example_env failing =
     \<lparr>throws = (\<lambda>h c. map_of failing (h, c)),
      worktree = (\<lambda>h c fs. fs),
      date_now = (\<lambda>h. 2),
      comment_html_url = (\<lambda>h. ''https://github.com/user/repo/commit/c2#commitcomment-1''),
      payload_repository = Some example_repository,
      context_workflow = ''CI'',
      payload_json = ''{}''\<rparr>"

definition example_world :: "(string \<times> string) list \<Rightarrow> world" where
  "example_world fs = \<lparr>files = map_of fs, calls = []\<rparr>"

definition example_config :: "rat Config" where
  "example_config =
     \<lparr>config_name = ''Benchmark'', config_tool = Cargo, ghPagesBranch = ''gh-pages'',
      benchmarkDataDirPath = ''dev/bench'', githubToken = None, autoPush = False,
      skipFetchGhPages = False, commentOnAlert = True, alertThreshold = 1,
      failOnAlert = False, alertCommentCcUsers = []\<rparr>"

section \<open>Predicates on runs\<close>

text \<open>
  The calls that change the remote: a push and a commit comment. \<open>quiet P m\<close>: running
  \<open>m\<close> adds no call satisfying \<open>P\<close>. \<open>never e m\<close>: \<open>m\<close> never rejects with \<open>e\<close>.
\<close>

fun is_remote_write :: "call \<Rightarrow> bool" where
  "is_remote_write (GitPush token branch) = True"
| "is_remote_write (CreateCommitComment auth owner repo sha body) = True"
| "is_remote_write c = False"

definition quiet :: "(call \<Rightarrow> bool) \<Rightarrow> 'a async \<Rightarrow> bool" where
  "quiet P m = (\<forall>w. filter P (calls (snd (m w))) = filter P (calls w))"

definition never :: "exn \<Rightarrow> 'a async \<Rightarrow> bool" where
  "never e m = (\<forall>w. fst (m w) \<noteq> Inl e)"

text \<open>
  Publishing several entries one after the other, as the history sees it: each publish
  loads what the previous one stored and adds its entry, with its own time and URL.
\<close>

fun merge_all ::
  "(string \<Rightarrow> bool) \<Rightarrow> string \<Rightarrow> ('n \<times> string \<times> 'n Benchmark) list \<Rightarrow> 'n DataJson \<Rightarrow> exn + 'n DataJson" where
  "merge_all inherited name [] data = Inr data"
| "merge_all inherited name ((now, htmlUrl, bench) # rest) data =
     (case addBenchmarkResult inherited now htmlUrl name bench data of
        Inl e \<Rightarrow> Inl e
      | Inr (data', prevBench) \<Rightarrow> merge_all inherited name rest data')"

section \<open>Theorems\<close>

subsection \<open>Regression detection\<close>

lemma findAlerts_loop_map_filter:
  "findAlerts_loop L t ps th cs acc = acc @ List.map_filter (spec_alert_of L t ps th) cs"
proof (induction cs arbitrary: acc)
  case Nil
  show ?case by simp
next
  case (Cons c cs)
  show ?case
  proof (cases "find (\<lambda>b. bench_name b = bench_name c) ps")
    case None
    then show ?thesis
      by (simp add: Cons.IH spec_alert_of_def)
  next
    case (Some p)
    have r: "(if biggerIsBetter t then num_div L (bench_value p) (bench_value c)
              else num_div L (bench_value c) (bench_value p)) = spec_ratio L t p c"
      by (cases t) (simp_all add: spec_ratio_def)
    show ?thesis
      using Some by (simp add: Cons.IH spec_alert_of_def r Let_def)
  qed
qed

text \<open>
  C2. Detection (\<open>findAlerts\<close>) returns, in the order of \<open>current.benches\<close>, exactly one
  Alert for each current measurement whose first same-named baseline measurement exists
  and whose ratio exceeds the threshold; the ratio is baseline / current for benchmarkjs
  and pytest and current / baseline for cargo and go; a measurement without a same-named
  baseline measurement contributes nothing. The function is total: it has no error result.
\<close>

theorem findAlerts_refines_spec:
  "findAlerts L curEntry prevEntry threshold = spec_detect L curEntry prevEntry threshold"
  by (simp add: findAlerts_def spec_detect_def findAlerts_loop_map_filter)

theorem findAlerts_refines_spec_witness:
  "findAlerts example_lib
     (entry_of ''c2'' Cargo [bench_of ''new'' 5, bench_of ''fib'' 200, bench_of ''sort'' 100])
     (entry_of ''c1'' Cargo [bench_of ''fib'' 100, bench_of ''sort'' 100, bench_of ''fib'' 1])
     (3 / 2)
   = [\<lparr>alert_current = bench_of ''fib'' 200, alert_prev = bench_of ''fib'' 100, alert_ratio = 2\<rparr>]"
  unfolding findAlerts_refines_spec
  by (simp add: spec_detect_def spec_alert_of_def spec_ratio_def
      entry_of_def bench_of_def example_lib_def)

subsection \<open>The history file\<close>

lemma loadDataJson_cases:
  "loadDataJson L E p w =
     (Inr (case throws E (calls w) (ReadFile p) of
             Some e \<Rightarrow> empty_default L
           | None \<Rightarrow> (case files w p of
                        None \<Rightarrow> empty_default L
                      | Some s \<Rightarrow> (case JSON_parse L (drop (length SCRIPT_PREFIX) s) of
                                     None \<Rightarrow> empty_default L
                                   | Some d \<Rightarrow> d))),
      \<lparr>files = files w, calls = calls w @ [ReadFile p]\<rparr>)"
  by (simp add: loadDataJson_def try_catch_def await_def fs_readFile_def perform_def
      resolve_def reject_def Let_def split: option.splits)

lemma SCRIPT_PREFIX_length: "length SCRIPT_PREFIX = 24"
  by (simp add: SCRIPT_PREFIX_def)

lemma example_json_text:
  \<open>example_json =
   ''{\<newline>  "lastUpdate": 1,\<newline>  "repoUrl": "https://github.com/user/repo",\<newline>  "entries": {\<newline>    "Benchmark": [\<newline>      {\<newline>        "commit": {\<newline>          "id": "c1"\<newline>        },\<newline>        "tool": "cargo",\<newline>        "benches": [\<newline>          {\<newline>            "name": "fib",\<newline>            "value": 100,\<newline>            "unit": "ns/iter"\<newline>          }\<newline>        ]\<newline>      }\<newline>    ]\<newline>  }\<newline>}''\<close>
  by (simp add: example_json_def example_stringify_def example_doc_def json_block_def json_member_def
      json_entry_def json_bench_def json_str_def tool_name_def show_rat_def entry_of_def bench_of_def)

lemma example_lib_parse_stringify:
  "JSON_parse example_lib (JSON_stringify example_lib example_doc) = Some example_doc"
  by (simp add: example_lib_def example_json_def)

lemmas example_run_defs = writeBenchmark_try_def writeBenchmark_fetch_def writeBenchmark_commit_def
  writeBenchmark_alert_def loadDataJson_cases storeDataJson_def addIndexHtmlIfNeeded_def
  addBenchmarkResult_def alert_def findAlerts_def buildAlertComment_def getCurrentRepo_def
  fs_stat_def fs_writeFile_def git_cmd_def git_pull_def io_mkdirP_def perform_def
  await_def resolve_def reject_def isPrivateRepo_of_def htmlUrl_of_def truthy_def Let_def
  SCRIPT_PREFIX_def ENOENT_def
  example_lib_def example_env_def example_world_def example_config_def example_repository_def
  example_doc_def entry_of_def bench_of_def

text \<open>
  C3. \<open>loadDataJson\<close> never rejects, and it resolves with the empty default History
  \<open>{lastUpdate: 0, repoUrl: "", entries: {}}\<close> whenever the read throws, the file is
  missing, or the content after the prefix does not parse.
\<close>

theorem loadDataJson_fails_closed:
  "(\<forall>e. fst (loadDataJson L E p w) \<noteq> Inl e) \<and>
   ((throws E (calls w) (ReadFile p) \<noteq> None \<or> files w p = None \<or>
     (\<exists>s. files w p = Some s \<and> JSON_parse L (drop (length SCRIPT_PREFIX) s) = None))
    \<longrightarrow> fst (loadDataJson L E p w) = Inr \<lparr>lastUpdate = num_zero L, repoUrl = '''', entries = Map.empty\<rparr>)"
  by (auto simp add: loadDataJson_cases empty_default_def split: option.splits)

theorem loadDataJson_fails_closed_witness:
  "files (example_world [(''dev/bench/data.js'', ''window.BENCHMARK_DATA = {oops'')]) ''dev/bench/data.js''
     = Some ''window.BENCHMARK_DATA = {oops'' \<and>
   JSON_parse example_lib (drop (length SCRIPT_PREFIX) ''window.BENCHMARK_DATA = {oops'') = None \<and>
   fst (loadDataJson example_lib (example_env []) ''dev/bench/data.js''
          (example_world [(''dev/bench/data.js'', ''window.BENCHMARK_DATA = {oops'')]))
     = Inr \<lparr>lastUpdate = 0, repoUrl = '''', entries = Map.empty\<rparr>"
  using loadDataJson_fails_closed [of example_lib "example_env []" "''dev/bench/data.js''"
      "example_world [(''dev/bench/data.js'', ''window.BENCHMARK_DATA = {oops'')]"]
  by (simp add: example_world_def example_lib_def example_json_text SCRIPT_PREFIX_def)

text \<open>
  C4. When \<open>storeDataJson\<close> succeeds, the file holds the prefix followed by the
  serialised document, dropping the prefix length from it leaves exactly the serialised
  document, and a following \<open>loadDataJson\<close> of that path (whose read does not throw)
  resolves with the original document, for every document that \<open>JSON.parse\<close> recovers
  from its \<open>JSON.stringify\<close> text.
\<close>

theorem store_then_load:
  assumes "fst (storeDataJson L E p d w) = Inr ()"
    and "throws E (calls (snd (storeDataJson L E p d w))) (ReadFile p) = None"
    and "JSON_parse L (JSON_stringify L d) = Some d"
  shows "files (snd (storeDataJson L E p d w)) p = Some (SCRIPT_PREFIX @ JSON_stringify L d) \<and>
         drop (length SCRIPT_PREFIX) (SCRIPT_PREFIX @ JSON_stringify L d) = JSON_stringify L d \<and>
         fst (loadDataJson L E p (snd (storeDataJson L E p d w))) = Inr d"
  using assms
  by (auto simp add: loadDataJson_cases storeDataJson_def fs_writeFile_def perform_def Let_def
      split: option.splits)

theorem store_then_load_witness:
  "fst (storeDataJson example_lib (example_env []) ''dev/bench/data.js'' example_doc (example_world [])) = Inr () \<and>
   fst (loadDataJson example_lib (example_env []) ''dev/bench/data.js''
         (snd (storeDataJson example_lib (example_env []) ''dev/bench/data.js'' example_doc (example_world []))))
     = Inr example_doc"
proof -
  have a: "fst (storeDataJson example_lib (example_env []) ''dev/bench/data.js'' example_doc (example_world [])) = Inr ()"
    by (simp add: storeDataJson_def fs_writeFile_def perform_def example_env_def example_world_def)
  have b: "throws (example_env [])
             (calls (snd (storeDataJson example_lib (example_env []) ''dev/bench/data.js'' example_doc (example_world []))))
             (ReadFile ''dev/bench/data.js'') = None"
    by (simp add: example_env_def)
  from store_then_load [OF a b example_lib_parse_stringify] a show ?thesis
    by simp
qed

text \<open>
  C9, as stated with 23 characters, fails: a file made of 23 characters followed by a JSON
  text is read, the text after the first 23 characters parses, and yet \<open>loadDataJson\<close>
  returns the empty default, because it drops 24 characters.
\<close>

theorem loadDataJson_23_counterexample:
  "throws (example_env []) (calls (example_world [(''dev/bench/data.js'', ''window.BENCHMARK_DATA ='' @ example_json)]))
     (ReadFile ''dev/bench/data.js'') = None \<and>
   files (example_world [(''dev/bench/data.js'', ''window.BENCHMARK_DATA ='' @ example_json)]) ''dev/bench/data.js''
     = Some (''window.BENCHMARK_DATA ='' @ example_json) \<and>
   length ''window.BENCHMARK_DATA ='' = 23 \<and>
   JSON_parse example_lib example_json = Some example_doc \<and>
   fst (loadDataJson example_lib (example_env []) ''dev/bench/data.js''
          (example_world [(''dev/bench/data.js'', ''window.BENCHMARK_DATA ='' @ example_json)]))
     = Inr (empty_default example_lib) \<and>
   empty_default example_lib \<noteq> example_doc"
  by (simp add: loadDataJson_cases example_world_def example_lib_def example_env_def
      example_json_text SCRIPT_PREFIX_def empty_default_def example_doc_def)

text \<open>
  C9, amended. \<open>loadDataJson\<close> never looks at the prefix: it drops exactly the first 24
  characters, the length of \<open>SCRIPT_PREFIX\<close>, whatever they are, and when the rest parses
  as JSON it resolves with that parse.
\<close>

theorem loadDataJson_drops_prefix_length:
  assumes "throws E (calls w) (ReadFile p) = None"
    and "files w p = Some (pre @ json)"
    and "length pre = 24"
    and "JSON_parse L json = Some d"
  shows "fst (loadDataJson L E p w) = Inr d \<and> length SCRIPT_PREFIX = 24"
  using assms by (simp add: loadDataJson_cases SCRIPT_PREFIX_length)

theorem loadDataJson_drops_prefix_length_witness:
  "fst (loadDataJson example_lib (example_env []) ''dev/bench/data.js''
          (example_world [(''dev/bench/data.js'', ''0123456789abcdefghijklmn'' @ example_json)]))
     = Inr example_doc"
  using loadDataJson_drops_prefix_length [of "example_env []"
      "example_world [(''dev/bench/data.js'', ''0123456789abcdefghijklmn'' @ example_json)]"
      "''dev/bench/data.js''" "''0123456789abcdefghijklmn''" example_json example_lib example_doc]
  by (simp add: example_world_def example_lib_def example_env_def)

subsection \<open>Adding the entry and selecting the baseline\<close>

lemma prevBench_loop_skip:
  "\<forall>x\<in>set xs. commit_id (commit x) = c \<Longrightarrow> prevBench_loop c (xs @ ys) = prevBench_loop c ys"
  by (induction xs) simp_all

lemma prevBench_loop_all_same:
  "\<forall>x\<in>set xs. commit_id (commit x) = c \<Longrightarrow> prevBench_loop c xs = None"
  by (induction xs) simp_all

lemma prevBench_loop_closest:
  assumes "commit_id (commit e) \<noteq> c" and "\<forall>x\<in>set post. commit_id (commit x) = c"
  shows "prevBench_loop c (rev (pre @ e # post)) = Some e"
proof -
  have "prevBench_loop c (rev post @ e # rev pre) = prevBench_loop c (e # rev pre)"
    using assms(2) by (intro prevBench_loop_skip) simp
  with assms(1) show ?thesis by simp
qed

lemma writeBenchmark_try_no_baseline:
  assumes "writeBenchmark_fetch E config w = (Inr (), w1)"
    and "loadDataJson L E (path_join L (benchmarkDataDirPath config) ''data.js'') w1 = (Inr data0, w2)"
    and "\<forall>data prev. addBenchmarkResult (inherited_property L) (date_now E (calls w2)) (htmlUrl_of E)
           (config_name config) bench data0 \<noteq> Inr (data, Some prev)"
  shows "writeBenchmark_try L E bench config w =
           (case addBenchmarkResult (inherited_property L) (date_now E (calls w2)) (htmlUrl_of E)
                   (config_name config) bench data0 of
              Inl e \<Rightarrow> (Inl e, w2)
            | Inr (data, prevBench) \<Rightarrow>
                writeBenchmark_commit L E config bench
                  (path_join L (benchmarkDataDirPath config) ''data.js'') data w2)"
proof (cases "addBenchmarkResult (inherited_property L) (date_now E (calls w2)) (htmlUrl_of E)
                (config_name config) bench data0")
  case (Inl e)
  with assms(1,2) show ?thesis
    by (simp add: writeBenchmark_try_def await_def Let_def reject_def)
next
  case (Inr dp)
  obtain data pb where dp: "dp = (data, pb)" by (cases dp)
  with Inr assms(3) have pb: "pb = None" by (cases pb) auto
  have "await (writeBenchmark_commit L E config bench (path_join L (benchmarkDataDirPath config) ''data.js'') data)
          (\<lambda>u. writeBenchmark_alert L E config bench None) w2 =
        writeBenchmark_commit L E config bench (path_join L (benchmarkDataDirPath config) ''data.js'') data w2"
    by (simp add: await_def writeBenchmark_alert_def resolve_def split: prod.splits sum.splits)
  with Inr dp pb assms(1,2) show ?thesis
    by (simp add: writeBenchmark_try_def await_def Let_def)
qed

text \<open>
  C1. When the suite has a sequence \<open>pre @ e # post\<close> in which \<open>e\<close> has a commit id other
  than the new entry's and every later entry has the new entry's commit id, the baseline
  is \<open>e\<close>: the closest entry, from the end, with a differing commit id. When every prior
  entry has the new entry's commit id, or the suite has no sequence, no baseline is
  returned. Without a baseline the publish does nothing after the commit and push stage:
  the alert check is skipped.
\<close>

theorem baseline_selection:
  "(entries data0 name = Some (pre @ e # post) \<and>
    commit_id (commit e) \<noteq> commit_id (commit bench) \<and>
    (\<forall>x\<in>set post. commit_id (commit x) = commit_id (commit bench))
    \<longrightarrow> (\<exists>data. addBenchmarkResult inh now url name bench data0 = Inr (data, Some e))) \<and>
   (entries data0 name = Some es \<and> (\<forall>x\<in>set es. commit_id (commit x) = commit_id (commit bench))
    \<longrightarrow> (\<exists>data. addBenchmarkResult inh now url name bench data0 = Inr (data, None))) \<and>
   (entries data0 name = None
    \<longrightarrow> (\<forall>data prev. addBenchmarkResult inh now url name bench data0 \<noteq> Inr (data, Some prev))) \<and>
   (writeBenchmark_fetch E config w = (Inr (), w1) \<and>
    loadDataJson L E (path_join L (benchmarkDataDirPath config) ''data.js'') w1 = (Inr data1, w2) \<and>
    (\<forall>data prev. addBenchmarkResult (inherited_property L) (date_now E (calls w2)) (htmlUrl_of E)
       (config_name config) bench data1 \<noteq> Inr (data, Some prev))
    \<longrightarrow> writeBenchmark_try L E bench config w =
          (case addBenchmarkResult (inherited_property L) (date_now E (calls w2)) (htmlUrl_of E)
                  (config_name config) bench data1 of
             Inl err \<Rightarrow> (Inl err, w2)
           | Inr (data, prevBench) \<Rightarrow>
               writeBenchmark_commit L E config bench
                 (path_join L (benchmarkDataDirPath config) ''data.js'') data w2))"
proof (intro conjI impI)
  assume "entries data0 name = Some (pre @ e # post) \<and>
    commit_id (commit e) \<noteq> commit_id (commit bench) \<and>
    (\<forall>x\<in>set post. commit_id (commit x) = commit_id (commit bench))"
  then show "\<exists>data. addBenchmarkResult inh now url name bench data0 = Inr (data, Some e)"
    using prevBench_loop_closest [of e "commit_id (commit bench)" post pre]
    by (simp add: addBenchmarkResult_def)
next
  assume "entries data0 name = Some es \<and> (\<forall>x\<in>set es. commit_id (commit x) = commit_id (commit bench))"
  then show "\<exists>data. addBenchmarkResult inh now url name bench data0 = Inr (data, None)"
    using prevBench_loop_all_same [of "rev es" "commit_id (commit bench)"]
    by (simp add: addBenchmarkResult_def)
next
  assume "entries data0 name = None"
  then show "\<forall>data prev. addBenchmarkResult inh now url name bench data0 \<noteq> Inr (data, Some prev)"
    by (simp add: addBenchmarkResult_def Let_def)
next
  assume "writeBenchmark_fetch E config w = (Inr (), w1) \<and>
    loadDataJson L E (path_join L (benchmarkDataDirPath config) ''data.js'') w1 = (Inr data1, w2) \<and>
    (\<forall>data prev. addBenchmarkResult (inherited_property L) (date_now E (calls w2)) (htmlUrl_of E)
       (config_name config) bench data1 \<noteq> Inr (data, Some prev))"
  then show "writeBenchmark_try L E bench config w =
          (case addBenchmarkResult (inherited_property L) (date_now E (calls w2)) (htmlUrl_of E)
                  (config_name config) bench data1 of
             Inl err \<Rightarrow> (Inl err, w2)
           | Inr (data, prevBench) \<Rightarrow>
               writeBenchmark_commit L E config bench
                 (path_join L (benchmarkDataDirPath config) ''data.js'') data w2)"
    using writeBenchmark_try_no_baseline by blast
qed

theorem baseline_selection_witness:
  "(case addBenchmarkResult (inherited_property example_lib) 2 ''u'' ''Benchmark''
           (entry_of ''C'' Cargo [bench_of ''fib'' 5])
           \<lparr>lastUpdate = 1, repoUrl = ''u'',
            entries = [''Benchmark'' \<mapsto>
              [entry_of ''A'' Cargo [bench_of ''fib'' 1], entry_of ''A'' Cargo [bench_of ''fib'' 2],
               entry_of ''B'' Cargo [bench_of ''fib'' 3], entry_of ''C'' Cargo [bench_of ''fib'' 4]]]\<rparr> of
      Inl err \<Rightarrow> False
    | Inr (data, prevBench) \<Rightarrow> prevBench = Some (entry_of ''B'' Cargo [bench_of ''fib'' 3])) \<and>
   (case addBenchmarkResult (inherited_property example_lib) 2 ''u'' ''Benchmark''
           (entry_of ''C'' Cargo [bench_of ''fib'' 5])
           \<lparr>lastUpdate = 1, repoUrl = ''u'',
            entries = [''Benchmark'' \<mapsto>
              [entry_of ''C'' Cargo [bench_of ''fib'' 1], entry_of ''C'' Cargo [bench_of ''fib'' 2]]]\<rparr> of
      Inl err \<Rightarrow> False
    | Inr (data, prevBench) \<Rightarrow> prevBench = None) \<and>
   (case addBenchmarkResult (inherited_property example_lib) 2 ''u'' ''Benchmark''
           (entry_of ''C'' Cargo [bench_of ''fib'' 5]) (empty_default example_lib) of
      Inl err \<Rightarrow> False
    | Inr (data, prevBench) \<Rightarrow> prevBench = None) \<and>
   writeBenchmark_try example_lib (example_env []) (entry_of ''c2'' Cargo [bench_of ''fib'' 200])
     example_config (example_world [])
   = writeBenchmark_commit example_lib (example_env []) example_config
       (entry_of ''c2'' Cargo [bench_of ''fib'' 200]) ''dev/bench/data.js''
       \<lparr>lastUpdate = 2, repoUrl = ''https://github.com/user/repo'',
        entries = [''Benchmark'' \<mapsto> [entry_of ''c2'' Cargo [bench_of ''fib'' 200]]]\<rparr>
       \<lparr>files = Map.empty,
        calls = [GitPull None ''gh-pages'' [], MkdirP ''dev/bench'', ReadFile ''dev/bench/data.js'']\<rparr>"
proof -
  let ?new = "entry_of ''C'' Cargo [bench_of ''fib'' 5]"
  let ?hist = "\<lparr>lastUpdate = 1, repoUrl = ''u'',
            entries = [''Benchmark'' \<mapsto>
              [entry_of ''A'' Cargo [bench_of ''fib'' 1], entry_of ''A'' Cargo [bench_of ''fib'' 2],
               entry_of ''B'' Cargo [bench_of ''fib'' 3], entry_of ''C'' Cargo [bench_of ''fib'' 4]]]\<rparr> :: rat DataJson"
  let ?same = "\<lparr>lastUpdate = 1, repoUrl = ''u'',
            entries = [''Benchmark'' \<mapsto>
              [entry_of ''C'' Cargo [bench_of ''fib'' 1], entry_of ''C'' Cargo [bench_of ''fib'' 2]]]\<rparr> :: rat DataJson"
  have h1: "entries ?hist ''Benchmark'' =
       Some ([entry_of ''A'' Cargo [bench_of ''fib'' 1], entry_of ''A'' Cargo [bench_of ''fib'' 2]]
             @ entry_of ''B'' Cargo [bench_of ''fib'' 3] # [entry_of ''C'' Cargo [bench_of ''fib'' 4]]) \<and>
     commit_id (commit (entry_of ''B'' Cargo [bench_of ''fib'' 3])) \<noteq> commit_id (commit ?new) \<and>
     (\<forall>x\<in>set [entry_of ''C'' Cargo [bench_of ''fib'' 4]]. commit_id (commit x) = commit_id (commit ?new))"
    by (simp add: entry_of_def)
  have h2: "entries ?same ''Benchmark'' =
       Some [entry_of ''C'' Cargo [bench_of ''fib'' 1], entry_of ''C'' Cargo [bench_of ''fib'' 2]] \<and>
     (\<forall>x\<in>set [entry_of ''C'' Cargo [bench_of ''fib'' 1], entry_of ''C'' Cargo [bench_of ''fib'' 2]].
        commit_id (commit x) = commit_id (commit ?new))"
    by (simp add: entry_of_def)
  have h3: "entries (empty_default example_lib) ''Benchmark'' = None"
    by (simp add: empty_default_def)
  let ?bench = "entry_of ''c2'' Cargo [bench_of ''fib'' 200]"
  let ?w2 = "\<lparr>files = Map.empty,
        calls = [GitPull None ''gh-pages'' [], MkdirP ''dev/bench'', ReadFile ''dev/bench/data.js'']\<rparr>"
  have h4: "writeBenchmark_fetch (example_env []) example_config (example_world [])
              = (Inr (), \<lparr>files = Map.empty, calls = [GitPull None ''gh-pages'' [], MkdirP ''dev/bench'']\<rparr>) \<and>
            loadDataJson example_lib (example_env [])
              (path_join example_lib (benchmarkDataDirPath example_config) ''data.js'')
              \<lparr>files = Map.empty, calls = [GitPull None ''gh-pages'' [], MkdirP ''dev/bench'']\<rparr>
              = (Inr (empty_default example_lib), ?w2) \<and>
            (\<forall>data prev. addBenchmarkResult (inherited_property example_lib)
                 (date_now (example_env []) (calls ?w2)) (htmlUrl_of (example_env []))
                 (config_name example_config) ?bench (empty_default example_lib) \<noteq> Inr (data, Some prev))"
    by (simp add: example_run_defs empty_default_def Object_prototype_names_def)
  note t = baseline_selection [where inh = "inherited_property example_lib" and now = 2 and url = "''u''"
      and name = "''Benchmark''" and bench = ?new]
  from t [where ?data0.0 = ?hist, THEN conjunct1, THEN mp, OF h1]
  obtain d1 where r1: "addBenchmarkResult (inherited_property example_lib) 2 ''u'' ''Benchmark'' ?new ?hist
        = Inr (d1, Some (entry_of ''B'' Cargo [bench_of ''fib'' 3]))"
    by blast
  from t [where ?data0.0 = ?same, THEN conjunct2, THEN conjunct1, THEN mp, OF h2]
  obtain d2 where r2: "addBenchmarkResult (inherited_property example_lib) 2 ''u'' ''Benchmark'' ?new ?same
        = Inr (d2, None)"
    by blast
  from t [where ?data0.0 = "empty_default example_lib", THEN conjunct2, THEN conjunct2, THEN conjunct1,
      THEN mp, OF h3]
  have r3: "\<forall>data prev. addBenchmarkResult (inherited_property example_lib) 2 ''u'' ''Benchmark'' ?new
              (empty_default example_lib) \<noteq> Inr (data, Some prev)" .
  have r3': "case addBenchmarkResult (inherited_property example_lib) 2 ''u'' ''Benchmark'' ?new
                    (empty_default example_lib) of
               Inl err \<Rightarrow> False | Inr (data, prevBench) \<Rightarrow> prevBench = None"
    using r3
    by (simp add: addBenchmarkResult_def empty_default_def example_lib_def Object_prototype_names_def)
  from baseline_selection [where bench = ?bench and L = example_lib and E = "example_env []"
      and config = example_config and w = "example_world []",
      THEN conjunct2, THEN conjunct2, THEN conjunct2, THEN mp, OF h4]
  have r4: "writeBenchmark_try example_lib (example_env []) ?bench example_config (example_world [])
   = writeBenchmark_commit example_lib (example_env []) example_config ?bench ''dev/bench/data.js''
       \<lparr>lastUpdate = 2, repoUrl = ''https://github.com/user/repo'',
        entries = [''Benchmark'' \<mapsto> [?bench]]\<rparr> ?w2"
    by (simp add: addBenchmarkResult_def empty_default_def example_lib_def example_env_def
        example_config_def example_repository_def htmlUrl_of_def Object_prototype_names_def)
  from r1 r2 r3' r4 show ?thesis by simp
qed

lemma addBenchmarkResult_appends:
  assumes "entries data0 name \<noteq> None \<or> \<not> inh name"
  shows "\<exists>data prevBench.
           addBenchmarkResult inh now url name bench data0 = Inr (data, prevBench) \<and>
           entries data name = Some ((case entries data0 name of None \<Rightarrow> [] | Some es \<Rightarrow> es) @ [bench]) \<and>
           (\<forall>n. n \<noteq> name \<longrightarrow> entries data n = entries data0 n)"
  using assms by (auto simp add: addBenchmarkResult_def Let_def split: option.splits)

lemma merge_all_appends:
  assumes "entries data0 name \<noteq> None \<or> \<not> inh name"
  shows "\<exists>data.
           merge_all inh name runs data0 = Inr data \<and>
           (runs \<noteq> [] \<longrightarrow>
              entries data name =
                Some ((case entries data0 name of None \<Rightarrow> [] | Some es \<Rightarrow> es) @ map (\<lambda>r. snd (snd r)) runs)) \<and>
           (\<forall>n. n \<noteq> name \<longrightarrow> entries data n = entries data0 n)"
  using assms
proof (induction runs arbitrary: data0)
  case Nil
  show ?case by simp
next
  case (Cons r runs)
  obtain now url bench where r: "r = (now, url, bench)" by (cases r)
  from addBenchmarkResult_appends [where ?data0.0 = data0 and name = name and inh = inh and now = now
      and url = url and bench = bench, OF Cons.prems]
  obtain data1 pb where
    m: "addBenchmarkResult inh now url name bench data0 = Inr (data1, pb)"
    and e: "entries data1 name = Some ((case entries data0 name of None \<Rightarrow> [] | Some es \<Rightarrow> es) @ [bench])"
    and o: "\<forall>n. n \<noteq> name \<longrightarrow> entries data1 n = entries data0 n"
    by blast
  from e have "entries data1 name \<noteq> None \<or> \<not> inh name" by simp
  from Cons.IH [where ?data0.0 = data1, OF this]
  obtain data where
    a: "merge_all inh name runs data1 = Inr data"
    and b: "runs \<noteq> [] \<longrightarrow> entries data name =
              Some ((case entries data1 name of None \<Rightarrow> [] | Some es \<Rightarrow> es) @ map (\<lambda>r. snd (snd r)) runs)"
    and c: "\<forall>n. n \<noteq> name \<longrightarrow> entries data n = entries data1 n"
    by blast
  have "entries data name =
          Some ((case entries data0 name of None \<Rightarrow> [] | Some es \<Rightarrow> es) @ map (\<lambda>r. snd (snd r)) (r # runs))"
  proof (cases runs)
    case Nil
    with a e r show ?thesis by simp
  next
    case (Cons r' runs')
    with b e r show ?thesis by simp
  qed
  with a m o c r show ?case by simp
qed

text \<open>
  C6 fails on the code for a suite name that every plain object inherits from
  \<open>Object.prototype\<close>: with the empty history and the suite name \<open>constructor\<close>, adding the
  entry throws a TypeError, and the whole publish rejects with it after the load, without
  storing anything. (For every other suite name the entry is appended and nothing else
  changes: \<open>addBenchmarkResult_appends\<close>, \<open>merge_all_appends\<close>.)
\<close>

theorem inherited_suite_name_throws:
  "addBenchmarkResult (inherited_property example_lib) 2 ''https://github.com/user/repo'' ''constructor''
     (entry_of ''c2'' Cargo [bench_of ''fib'' 200]) (empty_default example_lib)
     = Inl (Error ''entries.slice is not a function'') \<and>
   writeBenchmark example_lib (example_env []) (entry_of ''c2'' Cargo [bench_of ''fib'' 200])
     (example_config\<lparr>config_name := ''constructor''\<rparr>) (example_world [])
     = (Inl (Error ''entries.slice is not a function''),
        \<lparr>files = Map.empty,
         calls = [GitCmd [''switch'', ''gh-pages''], GitPull None ''gh-pages'' [], MkdirP ''dev/bench'',
                  ReadFile ''dev/bench/data.js'', GitCmd [''checkout'', ''-'']]\<rparr>)"
  by (simp add: addBenchmarkResult_def empty_default_def writeBenchmark_def writeBenchmark_try_def
      writeBenchmark_fetch_def loadDataJson_cases try_finally_def await_def resolve_def reject_def
      git_cmd_def git_pull_def io_mkdirP_def perform_def isPrivateRepo_of_def htmlUrl_of_def
      example_lib_def example_env_def example_world_def example_config_def example_repository_def
      Object_prototype_names_def Let_def)

subsection \<open>Push with one retry\<close>

text \<open>
  C5, as stated, fails: the first push is rejected with the marker in its message, the
  pull with rebase then throws, and no retried push is made; the error of the pull is
  propagated.
\<close>

theorem pushGitHubPages_pull_fails_counterexample:
  "throws (example_env [(([], GitPush ''tok'' ''gh-pages''), Error '' ! [remote rejected] gh-pages -> gh-pages''),
                        (([GitPush ''tok'' ''gh-pages''], GitPull (Some ''tok'') ''gh-pages'' [''--rebase'']),
                         Error ''fatal: unable to access'')])
      (calls (example_world [])) (GitPush ''tok'' ''gh-pages'')
     = Some (Error '' ! [remote rejected] gh-pages -> gh-pages'') \<and>
   str_includes '' ! [remote rejected] gh-pages -> gh-pages'' ''[remote rejected]'' \<and>
   pushGitHubPages
      (example_env [(([], GitPush ''tok'' ''gh-pages''), Error '' ! [remote rejected] gh-pages -> gh-pages''),
                    (([GitPush ''tok'' ''gh-pages''], GitPull (Some ''tok'') ''gh-pages'' [''--rebase'']),
                     Error ''fatal: unable to access'')])
      ''tok'' ''gh-pages'' (example_world [])
     = (Inl (Error ''fatal: unable to access''),
        \<lparr>files = Map.empty,
         calls = [GitPush ''tok'' ''gh-pages'', GitPull (Some ''tok'') ''gh-pages'' [''--rebase'']]\<rparr>)"
  by (simp add: pushGitHubPages_def git_push_def git_pull_def await_def perform_def
      example_env_def example_world_def)

text \<open>
  C5, amended. When the first push throws an \<open>Error\<close> whose message contains the
  remote-rejected marker, exactly one pull with rebase follows and, when that pull
  succeeds, exactly one retried push, whose failure is propagated; when the pull throws,
  its error is propagated and no push is retried. When the first push throws anything
  else, nothing is retried and the thrown value is propagated at once.
\<close>

theorem pushGitHubPages_retry:
  fixes E :: "'n env"
  assumes "throws E (calls w) (GitPush token branch) = Some err"
  shows
   "(\<forall>msg. err = Error msg \<and> str_includes msg ''[remote rejected]'' \<and>
       throws E (calls w @ [GitPush token branch]) (GitPull (Some token) branch [''--rebase'']) = None
     \<longrightarrow> calls (snd (pushGitHubPages E token branch w)) =
           calls w @ [GitPush token branch, GitPull (Some token) branch [''--rebase''], GitPush token branch] \<and>
         fst (pushGitHubPages E token branch w) =
           (case throws E (calls w @ [GitPush token branch, GitPull (Some token) branch [''--rebase'']])
                   (GitPush token branch) of
              None \<Rightarrow> Inr () | Some e \<Rightarrow> Inl e)) \<and>
    (\<forall>msg e. err = Error msg \<and> str_includes msg ''[remote rejected]'' \<and>
       throws E (calls w @ [GitPush token branch]) (GitPull (Some token) branch [''--rebase'']) = Some e
     \<longrightarrow> calls (snd (pushGitHubPages E token branch w)) =
           calls w @ [GitPush token branch, GitPull (Some token) branch [''--rebase'']] \<and>
         fst (pushGitHubPages E token branch w) = Inl e) \<and>
    ((\<forall>msg. err = Error msg \<longrightarrow> \<not> str_includes msg ''[remote rejected]'')
     \<longrightarrow> calls (snd (pushGitHubPages E token branch w)) = calls w @ [GitPush token branch] \<and>
         fst (pushGitHubPages E token branch w) = Inl err)"
  using assms
  by (cases err)
     (auto simp add: pushGitHubPages_def git_push_def git_pull_def await_def perform_def
       split: option.splits)

theorem pushGitHubPages_retry_witness:
  "pushGitHubPages
     (example_env [(([], GitPush ''tok'' ''gh-pages''), Error '' ! [remote rejected] gh-pages -> gh-pages'')])
     ''tok'' ''gh-pages'' (example_world [])
   = (Inr (),
      \<lparr>files = Map.empty,
       calls = [GitPush ''tok'' ''gh-pages'', GitPull (Some ''tok'') ''gh-pages'' [''--rebase''],
                GitPush ''tok'' ''gh-pages'']\<rparr>) \<and>
   pushGitHubPages
     (example_env [(([], GitPush ''tok'' ''gh-pages''), Error '' ! [remote rejected] gh-pages -> gh-pages''),
                   (([GitPush ''tok'' ''gh-pages''], GitPull (Some ''tok'') ''gh-pages'' [''--rebase'']),
                    Error ''fatal: unable to access'')])
     ''tok'' ''gh-pages'' (example_world [])
   = (Inl (Error ''fatal: unable to access''),
      \<lparr>files = Map.empty,
       calls = [GitPush ''tok'' ''gh-pages'', GitPull (Some ''tok'') ''gh-pages'' [''--rebase'']]\<rparr>) \<and>
   pushGitHubPages
     (example_env [(([], GitPush ''tok'' ''gh-pages''), Error ''fatal: Authentication failed'')])
     ''tok'' ''gh-pages'' (example_world [])
   = (Inl (Error ''fatal: Authentication failed''),
      \<lparr>files = Map.empty, calls = [GitPush ''tok'' ''gh-pages'']\<rparr>)"
proof -
  let ?push = "GitPush ''tok'' ''gh-pages''"
  let ?pull = "GitPull (Some ''tok'') ''gh-pages'' [''--rebase'']"
  let ?rejected = "'' ! [remote rejected] gh-pages -> gh-pages''"
  let ?E1 = "example_env [(([], ?push), Error ?rejected)]"
  let ?E2 = "example_env [(([], ?push), Error ?rejected), (([?push], ?pull), Error ''fatal: unable to access'')]"
  let ?E3 = "example_env [(([], ?push), Error ''fatal: Authentication failed'')]"
  have files: "files (snd (pushGitHubPages (example_env failing) ''tok'' ''gh-pages'' (example_world []))) = Map.empty"
    for failing
    by (simp add: pushGitHubPages_def git_push_def git_pull_def await_def perform_def
        example_env_def example_world_def split: option.splits exn.splits)
  have a1: "throws ?E1 (calls (example_world [])) ?push = Some (Error ?rejected)"
    by (simp add: example_env_def example_world_def)
  have b1: "Error ?rejected = Error ?rejected \<and> str_includes ?rejected ''[remote rejected]'' \<and>
           throws ?E1 (calls (example_world []) @ [?push]) ?pull = None"
    by (simp add: example_env_def example_world_def)
  from pushGitHubPages_retry [OF a1, THEN conjunct1, THEN spec, THEN mp, OF b1]
  have r1: "calls (snd (pushGitHubPages ?E1 ''tok'' ''gh-pages'' (example_world []))) = [?push, ?pull, ?push] \<and>
        fst (pushGitHubPages ?E1 ''tok'' ''gh-pages'' (example_world [])) = Inr ()"
    by (simp add: example_env_def example_world_def)
  have a2: "throws ?E2 (calls (example_world [])) ?push = Some (Error ?rejected)"
    by (simp add: example_env_def example_world_def)
  have b2: "Error ?rejected = Error ?rejected \<and> str_includes ?rejected ''[remote rejected]'' \<and>
           throws ?E2 (calls (example_world []) @ [?push]) ?pull = Some (Error ''fatal: unable to access'')"
    by (simp add: example_env_def example_world_def)
  from pushGitHubPages_retry [OF a2, THEN conjunct2, THEN conjunct1, THEN spec, THEN spec, THEN mp, OF b2]
  have r2: "calls (snd (pushGitHubPages ?E2 ''tok'' ''gh-pages'' (example_world []))) = [?push, ?pull] \<and>
        fst (pushGitHubPages ?E2 ''tok'' ''gh-pages'' (example_world [])) = Inl (Error ''fatal: unable to access'')"
    by (simp add: example_world_def)
  have a3: "throws ?E3 (calls (example_world [])) ?push = Some (Error ''fatal: Authentication failed'')"
    by (simp add: example_env_def example_world_def)
  have b3: "\<forall>msg. Error ''fatal: Authentication failed'' = Error msg \<longrightarrow> \<not> str_includes msg ''[remote rejected]''"
    by simp
  from pushGitHubPages_retry [OF a3, THEN conjunct2, THEN conjunct2, THEN mp, OF b3]
  have r3: "calls (snd (pushGitHubPages ?E3 ''tok'' ''gh-pages'' (example_world []))) = [?push] \<and>
        fst (pushGitHubPages ?E3 ''tok'' ''gh-pages'' (example_world [])) = Inl (Error ''fatal: Authentication failed'')"
    by (simp add: example_world_def)
  have eq: "m = (r, \<lparr>files = Map.empty, calls = cs\<rparr>)"
    if "calls (snd m) = cs \<and> fst m = r" and "files (snd m) = Map.empty" for m :: "(exn + unit) \<times> world" and r cs
    using that by (cases m) (auto intro: world.equality)
  from eq [OF r1 files] eq [OF r2 files] eq [OF r3 files] show ?thesis by simp
qed

subsection \<open>The report and the alert\<close>

lemma buildAlertComment_shape:
  assumes "payload_repository E = Some repo"
  shows "\<exists>header footer. buildAlertComment L E alerts name cur prev th cc =
           Inr (str_join [CHR 0x0A] (report_title L th # header @ map (alert_line L) alerts @ footer))"
proof -
  let ?text = "if name = ''Benchmark'' then '''' else '' **'' @ [CHR 0x27] @ name @ [CHR 0x27] @ ''**''"
  let ?header = "['''',
             ''Possible performance regression was detected for benchmark'' @ ?text @ ''.'',
             ''Benchmark result of this commit is worse than the previous benchmark result exceeding threshold `''
               @ num_to_string L th @ ''`.'',
             '''',
             ''| Benchmark suite | Current: '' @ commit_id (commit cur) @ '' | Previous: ''
               @ commit_id (commit prev) @ '' | Ratio |'',
             ''|-|-|-|-|'']"
  let ?foot = "['''',
                ''This comment was automatically generated by [workflow]('' @ (str_of (html_url repo) @ ''/actions?query=workflow%3A'' @ context_workflow E)
                  @ '') using [github-action-benchmark](https://github.com/rhysd/github-action-benchmark).'']"
  let ?footer = "if length cc > 0 then ?foot @ ['''', ''CC: '' @ str_join '' '' cc] else ?foot"
  have "buildAlertComment L E alerts name cur prev th cc =
           Inr (str_join [CHR 0x0A] (report_title L th # ?header @ map (alert_line L) alerts @ ?footer))"
    using assms by (simp add: buildAlertComment_def getCurrentRepo_def Let_def)
  then show ?thesis by blast
qed

text \<open>
  C7, as stated, fails: with threshold 0 and fail-on-alert set, a current value of 100
  against a baseline of 100 (ratio 1) is reported, and the run fails with the report as
  its error message.
\<close>

theorem threshold_zero_fails_counterexample:
  "num_is_zero example_lib 0 \<and>
   fst (alert example_lib (example_env []) ''Benchmark''
         (entry_of ''c2'' Cargo [bench_of ''fib'' 100]) (entry_of ''c1'' Cargo [bench_of ''fib'' 100])
         0 None False True [] (example_world []))
   = Inl (Error (str_join ''\<newline>''
       [''# Performance Report'',
        '''',
        ''Possible performance regression was detected for benchmark.'',
        ''Benchmark result of this commit is worse than the previous benchmark result exceeding threshold `0`.'',
        '''',
        ''| Benchmark suite | Current: c2 | Previous: c1 | Ratio |'',
        ''|-|-|-|-|'',
        ''| `fib` | `100` ns/iter | `100` ns/iter | `1` |'',
        '''',
        ''This comment was automatically generated by [workflow](https://github.com/user/repo/actions?query=workflow%3ACI) using [github-action-benchmark](https://github.com/rhysd/github-action-benchmark).'']))"
  by (simp add: alert_def findAlerts_def buildAlertComment_def getCurrentRepo_def report_title_def
      alert_line_def strOfValue_def truthy_def str_of_def example_lib_def example_env_def
      example_repository_def entry_of_def bench_of_def show_rat_def
      await_def resolve_def reject_def Let_def)

text \<open>
  C7, amended. For every run with threshold 0 in which the repository context is
  available and at least one compared metric has a ratio above the threshold, the report
  is titled \<open># Performance Report\<close> and has one row for each such metric, in order. With
  fail-on-alert set and comment-on-alert unset the run fails with the report as its error
  message; with comment-on-alert set, a credential, fail-on-alert unset and a comment call
  that does not throw, the report is posted as one commit comment and the run does not
  fail; with both flags unset nothing is reported and the run does not fail.
\<close>

theorem threshold_zero_report:
  assumes "num_is_zero L threshold"
    and "payload_repository E = Some repo"
    and "findAlerts L cur prev threshold \<noteq> []"
  shows "\<exists>header footer body.
           body = str_join [CHR 0x0A] (''# Performance Report'' # header
                    @ map (alert_line L) (spec_detect L cur prev threshold) @ footer) \<and>
           alert L E name cur prev threshold token False True cc w = (Inl (Error body), w) \<and>
           (\<forall>t. token = Some t \<and> t \<noteq> [] \<and>
                throws E (calls w) (CreateCommitComment t (owner_login repo) (repo_name repo)
                                      (commit_id (commit cur)) body) = None
              \<longrightarrow> fst (alert L E name cur prev threshold token True False cc w) = Inr () \<and>
                  calls (snd (alert L E name cur prev threshold token True False cc w)) =
                    calls w @ [CreateCommitComment t (owner_login repo) (repo_name repo)
                                 (commit_id (commit cur)) body]) \<and>
           alert L E name cur prev threshold token False False cc w = (Inr (), w)"
proof -
  from buildAlertComment_shape [OF assms(2)]
  obtain header footer where
    b: "buildAlertComment L E (findAlerts L cur prev threshold) name cur prev threshold cc =
          Inr (str_join [CHR 0x0A] (report_title L threshold # header
                 @ map (alert_line L) (findAlerts L cur prev threshold) @ footer))"
    by blast
  define body where "body = str_join [CHR 0x0A] (''# Performance Report'' # header
                    @ map (alert_line L) (spec_detect L cur prev threshold) @ footer)"
  have b': "buildAlertComment L E (findAlerts L cur prev threshold) name cur prev threshold cc = Inr body"
    using b assms(1)
    by (simp add: body_def report_title_def findAlerts_def spec_detect_def findAlerts_loop_map_filter)
  have fail: "alert L E name cur prev threshold token False True cc w = (Inl (Error body), w)"
    using assms(3) b' by (simp add: alert_def Let_def await_def resolve_def reject_def)
  have off: "alert L E name cur prev threshold token False False cc w = (Inr (), w)"
    by (simp add: alert_def resolve_def)
  have comment: "fst (alert L E name cur prev threshold token True False cc w) = Inr () \<and>
                  calls (snd (alert L E name cur prev threshold token True False cc w)) =
                    calls w @ [CreateCommitComment t (owner_login repo) (repo_name repo)
                                 (commit_id (commit cur)) body]"
    if "token = Some t \<and> t \<noteq> [] \<and>
                throws E (calls w) (CreateCommitComment t (owner_login repo) (repo_name repo)
                                      (commit_id (commit cur)) body) = None" for t
    using that assms(2,3) b'
    by (simp add: alert_def Let_def await_def resolve_def reject_def leaveComment_def
        getCurrentRepo_def perform_def)
  show ?thesis
    using fail off comment body_def by blast
qed

theorem threshold_zero_report_witness:
  "num_is_zero example_lib 0 \<and>
   findAlerts example_lib (entry_of ''c2'' Cargo [bench_of ''fib'' 100])
     (entry_of ''c1'' Cargo [bench_of ''fib'' 100]) 0 \<noteq> [] \<and>
   fst (alert example_lib (example_env []) ''Benchmark''
         (entry_of ''c2'' Cargo [bench_of ''fib'' 100]) (entry_of ''c1'' Cargo [bench_of ''fib'' 100])
         0 (Some ''tok'') True False [] (example_world [])) = Inr () \<and>
   length (calls (snd (alert example_lib (example_env []) ''Benchmark''
         (entry_of ''c2'' Cargo [bench_of ''fib'' 100]) (entry_of ''c1'' Cargo [bench_of ''fib'' 100])
         0 (Some ''tok'') True False [] (example_world [])))) = 1"
proof -
  have z: "num_is_zero example_lib 0"
    by (simp add: example_lib_def)
  have r: "payload_repository (example_env []) = Some example_repository"
    by (simp add: example_env_def)
  have f: "findAlerts example_lib (entry_of ''c2'' Cargo [bench_of ''fib'' 100])
     (entry_of ''c1'' Cargo [bench_of ''fib'' 100]) 0 \<noteq> []"
    by (simp add: findAlerts_def example_lib_def entry_of_def bench_of_def)
  from threshold_zero_report [OF z r f, of "''Benchmark''" "Some ''tok''" "[]" "example_world []"]
  obtain body where
    "\<forall>t. Some ''tok'' = Some t \<and> t \<noteq> [] \<and>
         throws (example_env []) (calls (example_world []))
           (CreateCommitComment t (owner_login example_repository) (repo_name example_repository)
              (commit_id (commit (entry_of ''c2'' Cargo [bench_of ''fib'' 100]))) body) = None
       \<longrightarrow> fst (alert example_lib (example_env []) ''Benchmark''
                  (entry_of ''c2'' Cargo [bench_of ''fib'' 100]) (entry_of ''c1'' Cargo [bench_of ''fib'' 100])
                  0 (Some ''tok'') True False [] (example_world [])) = Inr () \<and>
           calls (snd (alert example_lib (example_env []) ''Benchmark''
                  (entry_of ''c2'' Cargo [bench_of ''fib'' 100]) (entry_of ''c1'' Cargo [bench_of ''fib'' 100])
                  0 (Some ''tok'') True False [] (example_world []))) =
             calls (example_world []) @
               [CreateCommitComment t (owner_login example_repository) (repo_name example_repository)
                  (commit_id (commit (entry_of ''c2'' Cargo [bench_of ''fib'' 100]))) body]"
    by blast
  from this [rule_format, of "''tok''"] z f show ?thesis
    by (simp add: example_env_def example_world_def)
qed

subsection \<open>The publish operation: cleanup\<close>

lemma await_perform:
  "await (perform E c) f w =
     (case throws E (calls w) c of
        Some e \<Rightarrow> (Inl e, snd (perform E c w))
      | None \<Rightarrow> f () (snd (perform E c w)))"
  by (simp add: await_def perform_def split: option.splits)


lemma writeBenchmark_outcome:
  assumes "throws E (calls w) (GitCmd [''switch'', ghPagesBranch config]) = None"
  shows "fst (writeBenchmark L E bench config w) =
           (case throws E
                   (calls (snd (writeBenchmark_try L E bench config
                                  (snd (git_cmd E [''switch'', ghPagesBranch config] w)))))
                   (GitCmd [''checkout'', ''-'']) of
              Some e \<Rightarrow> Inl e
            | None \<Rightarrow> fst (writeBenchmark_try L E bench config
                             (snd (git_cmd E [''switch'', ghPagesBranch config] w))))"
  using assms
  by (simp add: writeBenchmark_def git_cmd_def await_perform try_finally_def perform_def
      split: prod.splits option.splits)



subsection \<open>The publish operation: comment-on-alert without a credential\<close>

lemma quiet_resolve: "quiet P (resolve v)"
  by (simp add: quiet_def resolve_def)

lemma quiet_reject: "quiet P (reject e)"
  by (simp add: quiet_def reject_def)

lemma quiet_perform: "\<not> P c \<Longrightarrow> quiet P (perform E c)"
  by (simp add: quiet_def perform_def split: option.splits)

lemma quiet_await: "quiet P m \<Longrightarrow> (\<And>v. quiet P (f v)) \<Longrightarrow> quiet P (await m f)"
  unfolding quiet_def await_def
proof (intro allI)
  fix w
  assume m: "\<forall>w. filter P (calls (snd (m w))) = filter P (calls w)"
    and f: "\<And>v. \<forall>w. filter P (calls (snd (f v w))) = filter P (calls w)"
  show "filter P (calls (snd (case m w of (Inl e, w') \<Rightarrow> (Inl e, w') | (Inr v, w') \<Rightarrow> f v w'))) = filter P (calls w)"
  proof (cases "m w")
    case (Pair r w')
    then have "filter P (calls w') = filter P (calls w)" using m [rule_format, of w] by simp
    then show ?thesis using Pair f by (cases r) simp_all
  qed
qed

lemma quiet_if: "quiet P a \<Longrightarrow> quiet P b \<Longrightarrow> quiet P (if c then a else b)"
  by simp

lemma quiet_loadDataJson: "quiet is_remote_write (loadDataJson L E p)"
  by (simp add: quiet_def loadDataJson_cases)

lemma quiet_fetch: "quiet is_remote_write (writeBenchmark_fetch E config)"
  unfolding writeBenchmark_fetch_def git_pull_def io_mkdirP_def
  by (intro quiet_await quiet_if quiet_perform quiet_resolve) simp_all

lemma quiet_stat: "quiet is_remote_write (fs_stat E p)"
  unfolding fs_stat_def
  by (intro quiet_await quiet_perform) (simp_all add: quiet_def split: option.splits)

lemma quiet_addIndexHtmlIfNeeded: "quiet is_remote_write (addIndexHtmlIfNeeded L E dir)"
proof -
  have rest: "quiet is_remote_write (await (fs_writeFile E p (DEFAULT_INDEX_HTML L)) (\<lambda>u. git_cmd E [''add'', p]))" for p
    unfolding fs_writeFile_def git_cmd_def
    by (intro quiet_await quiet_perform) simp_all
  show ?thesis
    unfolding quiet_def addIndexHtmlIfNeeded_def Let_def
  proof (intro allI)
    fix w
    obtain r w' where s: "fs_stat E (path_join L dir ''index.html'') w = (r, w')"
      by (cases "fs_stat E (path_join L dir ''index.html'') w")
    then have "filter is_remote_write (calls w') = filter is_remote_write (calls w)"
      using quiet_stat [of E "path_join L dir ''index.html''"] by (auto simp add: quiet_def dest: spec [of _ w])
    then show "filter is_remote_write (calls (snd (case fs_stat E (path_join L dir ''index.html'') w of
              (Inr u, w') \<Rightarrow> (Inr (), w')
            | (Inl e, w') \<Rightarrow>
                await (fs_writeFile E (path_join L dir ''index.html'') (DEFAULT_INDEX_HTML L))
                  (\<lambda>u. git_cmd E [''add'', path_join L dir ''index.html'']) w'))) = filter is_remote_write (calls w)"
      using s rest [of "path_join L dir ''index.html''"] by (cases r) (simp_all add: quiet_def)
  qed
qed

lemma quiet_commit_no_token:
  assumes "\<not> truthy (githubToken config)"
  shows "quiet is_remote_write (writeBenchmark_commit L E config bench p data)"
proof -
  have last: "quiet is_remote_write (case githubToken config of
         None \<Rightarrow> resolve ()
       | Some t \<Rightarrow>
           if t \<noteq> [] \<and> autoPush config then pushGitHubPages E t (ghPagesBranch config)
           else resolve ())"
    using assms by (auto simp add: truthy_def quiet_resolve split: option.splits)
  show ?thesis
    unfolding writeBenchmark_commit_def storeDataJson_def Let_def fs_writeFile_def git_cmd_def
    by (intro quiet_await quiet_perform quiet_addIndexHtmlIfNeeded last) simp_all
qed

lemma alert_no_token:
  assumes "\<not> truthy token"
  shows "snd (alert L E name cur prev th token shouldComment shouldFail cc w) = w"
  using assms
  by (auto simp add: alert_def truthy_def Let_def await_def resolve_def reject_def
      split: sum.splits option.splits)

lemma quiet_alert_no_token:
  "\<not> truthy (githubToken config) \<Longrightarrow> quiet P (writeBenchmark_alert L E config bench prevBench)"
  by (simp add: quiet_def writeBenchmark_alert_def alert_no_token resolve_def split: option.splits)

lemma quiet_try_no_token:
  assumes "\<not> truthy (githubToken config)"
  shows "quiet is_remote_write (writeBenchmark_try L E bench config)"
  unfolding writeBenchmark_try_def Let_def
  apply (intro quiet_await quiet_fetch quiet_loadDataJson)
   apply (simp add: quiet_def)
  apply (simp split: sum.splits prod.splits)
  apply (intro conjI allI impI quiet_reject quiet_await quiet_commit_no_token quiet_alert_no_token assms)
  done

lemma await_Inr:
  "await m f w = (Inr v, w3) \<longleftrightarrow> (\<exists>u w'. m w = (Inr u, w') \<and> f u w' = (Inr v, w3))"
  by (auto simp add: await_def split: prod.splits sum.splits)

lemma never_resolve: "never e (resolve v)"
  by (simp add: never_def resolve_def)

lemma never_perform: "\<forall>h c. throws E h c \<noteq> Some e \<Longrightarrow> never e (perform E c)"
  by (auto simp add: never_def perform_def split: option.splits)

lemma never_await: "never e m \<Longrightarrow> (\<And>v. never e (f v)) \<Longrightarrow> never e (await m f)"
  by (auto simp add: never_def await_def split: prod.splits sum.splits)
     (metis fst_conv)+

lemma never_if: "never e a \<Longrightarrow> never e b \<Longrightarrow> never e (if c then a else b)"
  by simp

lemma never_fetch:
  "\<forall>h c. throws E h c \<noteq> Some e \<Longrightarrow> never e (writeBenchmark_fetch E config)"
  unfolding writeBenchmark_fetch_def git_pull_def io_mkdirP_def
  by (intro never_await never_if never_perform never_resolve)

lemma never_addIndexHtmlIfNeeded:
  assumes "\<forall>h c. throws E h c \<noteq> Some e"
  shows "never e (addIndexHtmlIfNeeded L E dir)"
proof -
  have rest: "never e (await (fs_writeFile E p (DEFAULT_INDEX_HTML L)) (\<lambda>u. git_cmd E [''add'', p]))" for p
    unfolding fs_writeFile_def git_cmd_def
    by (intro never_await never_perform assms)
  show ?thesis
    using rest [of "path_join L dir ''index.html''"]
    by (auto simp add: never_def addIndexHtmlIfNeeded_def Let_def split: prod.splits sum.splits)
qed

lemma never_commit_no_token:
  assumes "\<not> truthy (githubToken config)" and "\<forall>h c. throws E h c \<noteq> Some e"
  shows "never e (writeBenchmark_commit L E config bench p data)"
proof -
  have last: "never e (case githubToken config of
         None \<Rightarrow> resolve ()
       | Some t \<Rightarrow>
           if t \<noteq> [] \<and> autoPush config then pushGitHubPages E t (ghPagesBranch config)
           else resolve ())"
    using assms(1) by (auto simp add: truthy_def never_resolve split: option.splits)
  show ?thesis
    unfolding writeBenchmark_commit_def storeDataJson_def Let_def fs_writeFile_def git_cmd_def
    by (intro never_await never_perform never_addIndexHtmlIfNeeded last assms(2))
qed

lemma commit_last_call:
  assumes "\<not> truthy (githubToken config)"
    and "writeBenchmark_commit L E config bench p data w = (Inr (), w3)"
  shows "\<exists>h. calls w3 = h @ [GitCmd [''commit'', ''-m'', commit_message config bench]]"
proof -
  have last: "(case githubToken config of
         None \<Rightarrow> resolve ()
       | Some t \<Rightarrow>
           if t \<noteq> [] \<and> autoPush config then pushGitHubPages E t (ghPagesBranch config)
           else resolve ()) = resolve ()"
    using assms(1) by (auto simp add: truthy_def split: option.splits)
  from assms(2) obtain w' where
    "await (git_cmd E [''commit'', ''-m'', commit_message config bench]) (\<lambda>u. resolve ()) w' = (Inr (), w3)"
    unfolding writeBenchmark_commit_def last await_Inr [of "storeDataJson L E p data"]
      await_Inr [of "git_cmd E [''add'', p]"] await_Inr [of "addIndexHtmlIfNeeded L E (benchmarkDataDirPath config)"]
    by blast
  then have "calls w3 = calls w' @ [GitCmd [''commit'', ''-m'', commit_message config bench]]"
    by (auto simp add: await_def git_cmd_def perform_def resolve_def split: option.splits)
  then show ?thesis by blast
qed

lemma alert_missing_token:
  assumes "\<not> truthy token"
    and "fst (alert L E name cur prev th token shouldComment shouldFail cc w) = Inl missing_token"
  shows "findAlerts L cur prev th \<noteq> []"
  using assms
  by (auto simp add: alert_def resolve_def split: if_splits)

lemma alert_no_alerts:
  "findAlerts L cur prev th = [] \<Longrightarrow>
   alert L E name cur prev th token shouldComment shouldFail cc w = (Inr (), w)"
  by (simp add: alert_def resolve_def)

lemma TypeError_not_missing_token:
  "Error ''entries.slice is not a function'' \<noteq> missing_token"
  by (simp add: missing_token_def)

text \<open>
  C10. With comment-on-alert set, no credential, and collaborators that do not themselves
  throw the missing-token error: when the \<open>try\<close> block of the publish rejects with the
  missing-token error, then the pull and the load had succeeded, a baseline existed,
  detection found at least one alert, the commit stage had succeeded, and the commit is
  the last call made. When a baseline exists, the commit stage succeeds and detection
  finds no alert, the \<open>try\<close> block completes without error in the world the commit stage
  left. In every case the run adds no push and no commit comment to the calls.
\<close>

theorem missing_token_raised_late:
  fixes L :: "'n lib" and E :: "'n env"
  assumes "commentOnAlert config"
    and "\<not> truthy (githubToken config)"
    and "\<forall>h c. throws E h c \<noteq> Some missing_token"
  shows
   "(fst (writeBenchmark_try L E bench config w) = Inl missing_token \<longrightarrow>
       (\<exists>w1 data0 w2 data prev h.
          writeBenchmark_fetch E config w = (Inr (), w1) \<and>
          loadDataJson L E (path_join L (benchmarkDataDirPath config) ''data.js'') w1 = (Inr data0, w2) \<and>
          addBenchmarkResult (inherited_property L) (date_now E (calls w2)) (htmlUrl_of E)
            (config_name config) bench data0 = Inr (data, Some prev) \<and>
          findAlerts L bench prev (alertThreshold config) \<noteq> [] \<and>
          fst (writeBenchmark_commit L E config bench
                 (path_join L (benchmarkDataDirPath config) ''data.js'') data w2) = Inr () \<and>
          calls (snd (writeBenchmark_try L E bench config w)) =
            h @ [GitCmd [''commit'', ''-m'', commit_message config bench]])) \<and>
    (\<forall>w1 data0 w2 data prev w3.
          writeBenchmark_fetch E config w = (Inr (), w1) \<and>
          loadDataJson L E (path_join L (benchmarkDataDirPath config) ''data.js'') w1 = (Inr data0, w2) \<and>
          addBenchmarkResult (inherited_property L) (date_now E (calls w2)) (htmlUrl_of E)
            (config_name config) bench data0 = Inr (data, Some prev) \<and>
          writeBenchmark_commit L E config bench
            (path_join L (benchmarkDataDirPath config) ''data.js'') data w2 = (Inr (), w3) \<and>
          findAlerts L bench prev (alertThreshold config) = []
          \<longrightarrow> writeBenchmark_try L E bench config w = (Inr (), w3)) \<and>
    filter is_remote_write (calls (snd (writeBenchmark_try L E bench config w))) =
      filter is_remote_write (calls w)"
proof (intro conjI impI allI)
  let ?p = "path_join L (benchmarkDataDirPath config) ''data.js''"
  assume tok: "fst (writeBenchmark_try L E bench config w) = Inl missing_token"
  obtain r1 w1 where f: "writeBenchmark_fetch E config w = (r1, w1)"
    by (cases "writeBenchmark_fetch E config w")
  have "r1 \<noteq> Inl missing_token"
    using never_fetch [OF assms(3), of config] f by (auto simp add: never_def dest: spec [of _ w])
  obtain data0 w2 where l: "loadDataJson L E ?p w1 = (Inr data0, w2)"
    by (simp add: loadDataJson_cases)
  show "\<exists>w1 data0 w2 data prev h.
          writeBenchmark_fetch E config w = (Inr (), w1) \<and>
          loadDataJson L E ?p w1 = (Inr data0, w2) \<and>
          addBenchmarkResult (inherited_property L) (date_now E (calls w2)) (htmlUrl_of E)
            (config_name config) bench data0 = Inr (data, Some prev) \<and>
          findAlerts L bench prev (alertThreshold config) \<noteq> [] \<and>
          fst (writeBenchmark_commit L E config bench ?p data w2) = Inr () \<and>
          calls (snd (writeBenchmark_try L E bench config w)) =
            h @ [GitCmd [''commit'', ''-m'', commit_message config bench]]"
  proof (cases r1)
    case (Inl e)
    with f tok \<open>r1 \<noteq> Inl missing_token\<close> show ?thesis
      by (simp add: writeBenchmark_try_def Let_def await_def)
  next
    case (Inr u)
    show ?thesis
    proof (cases "addBenchmarkResult (inherited_property L) (date_now E (calls w2)) (htmlUrl_of E)
            (config_name config) bench data0")
      case (Inl e)
      then have "e = Error ''entries.slice is not a function''"
        by (auto simp add: addBenchmarkResult_def Let_def split: option.splits if_splits)
      with Inl Inr f l tok TypeError_not_missing_token show ?thesis
        by (simp add: writeBenchmark_try_def Let_def await_def reject_def)
    next
      case merged: (Inr dp)
      obtain data pb where dp: "dp = (data, pb)" by (cases dp)
      obtain r3 w3 where c: "writeBenchmark_commit L E config bench ?p data w2 = (r3, w3)"
        by (cases "writeBenchmark_commit L E config bench ?p data w2")
      have r3: "r3 \<noteq> Inl missing_token"
        using never_commit_no_token [OF assms(2,3), of L bench ?p data] c
        by (auto simp add: never_def dest: spec [of _ w2])
      have run: "writeBenchmark_try L E bench config w =
                 (case r3 of Inl e \<Rightarrow> (Inl e, w3) | Inr u \<Rightarrow> writeBenchmark_alert L E config bench pb w3)"
        using f Inr l merged dp c
        by (simp add: writeBenchmark_try_def Let_def await_def split: sum.splits)
      show ?thesis
      proof (cases r3)
        case (Inl e)
        with run tok r3 show ?thesis by simp
      next
        case ok: (Inr u3)
        with run have run': "writeBenchmark_try L E bench config w = writeBenchmark_alert L E config bench pb w3"
          by simp
        from tok run' obtain prev where pb: "pb = Some prev"
          by (cases pb) (simp_all add: writeBenchmark_alert_def resolve_def)
        have al: "findAlerts L bench prev (alertThreshold config) \<noteq> []"
          using tok run' pb alert_missing_token [OF assms(2)]
          by (simp add: writeBenchmark_alert_def)
        have w3: "snd (writeBenchmark_try L E bench config w) = w3"
          using run' pb alert_no_token [OF assms(2)] by (simp add: writeBenchmark_alert_def)
        from commit_last_call [OF assms(2)] c ok
        obtain h where "calls w3 = h @ [GitCmd [''commit'', ''-m'', commit_message config bench]]"
          by (cases u3) blast
        with f Inr l merged dp pb al c ok w3 show ?thesis
          by (cases u) auto
      qed
    qed
  qed
next
  fix w1 data0 w2 data prev w3
  assume "writeBenchmark_fetch E config w = (Inr (), w1) \<and>
          loadDataJson L E (path_join L (benchmarkDataDirPath config) ''data.js'') w1 = (Inr data0, w2) \<and>
          addBenchmarkResult (inherited_property L) (date_now E (calls w2)) (htmlUrl_of E)
            (config_name config) bench data0 = Inr (data, Some prev) \<and>
          writeBenchmark_commit L E config bench
            (path_join L (benchmarkDataDirPath config) ''data.js'') data w2 = (Inr (), w3) \<and>
          findAlerts L bench prev (alertThreshold config) = []"
  then show "writeBenchmark_try L E bench config w = (Inr (), w3)"
    by (simp add: writeBenchmark_try_def Let_def await_def writeBenchmark_alert_def alert_no_alerts)
next
  show "filter is_remote_write (calls (snd (writeBenchmark_try L E bench config w))) =
      filter is_remote_write (calls w)"
    using quiet_try_no_token [OF assms(2), of L E bench] by (simp add: quiet_def)
qed

lemma example_run_rejects:
  "fst (writeBenchmark_try example_lib (example_env []) (entry_of ''c2'' Cargo [bench_of ''fib'' 200])
          example_config (example_world [(''dev/bench/data.js'', SCRIPT_PREFIX @ example_json)]))
   = Inl missing_token"
  by (simp add: example_run_defs)

theorem missing_token_raised_late_witness:
  "fst (writeBenchmark_try example_lib (example_env []) (entry_of ''c2'' Cargo [bench_of ''fib'' 200])
          example_config (example_world [(''dev/bench/data.js'', SCRIPT_PREFIX @ example_json)]))
     = Inl missing_token \<and>
   (\<exists>h. calls (snd (writeBenchmark_try example_lib (example_env []) (entry_of ''c2'' Cargo [bench_of ''fib'' 200])
                     example_config (example_world [(''dev/bench/data.js'', SCRIPT_PREFIX @ example_json)])))
        = h @ [GitCmd [''commit'', ''-m'', ''add Benchmark (cargo) benchmark result for c2'']]) \<and>
   filter is_remote_write
     (calls (snd (writeBenchmark_try example_lib (example_env []) (entry_of ''c2'' Cargo [bench_of ''fib'' 200])
                    example_config (example_world [(''dev/bench/data.js'', SCRIPT_PREFIX @ example_json)]))))
     = [] \<and>
   fst (writeBenchmark_try example_lib (example_env []) (entry_of ''c2'' Cargo [bench_of ''fib'' 100])
          example_config (example_world [(''dev/bench/data.js'', SCRIPT_PREFIX @ example_json)]))
     = Inr ()"
proof -
  let ?L = example_lib and ?E = "example_env [] :: rat env" and ?c = example_config
  let ?bench = "entry_of ''c2'' Cargo [bench_of ''fib'' 200]"
  let ?w = "example_world [(''dev/bench/data.js'', SCRIPT_PREFIX @ example_json)]"
  have a: "commentOnAlert example_config"
    by (simp add: example_config_def)
  have b: "\<not> truthy (githubToken example_config)"
    by (simp add: example_config_def truthy_def)
  have c: "\<forall>h c. throws (example_env []) h c \<noteq> Some missing_token"
    by (simp add: example_env_def)
  have m: "commit_message example_config ?bench = ''add Benchmark (cargo) benchmark result for c2''"
    by (simp add: commit_message_def example_config_def tool_name_def entry_of_def)
  note t = missing_token_raised_late [OF a b c, of example_lib ?bench ?w]
  from t [THEN conjunct1, THEN mp, OF example_run_rejects]
  obtain h where "calls (snd (writeBenchmark_try ?L ?E ?bench ?c ?w))
                    = h @ [GitCmd [''commit'', ''-m'', commit_message ?c ?bench]]"
    by blast
  with m t [THEN conjunct2, THEN conjunct2] example_run_rejects
  have first: "fst (writeBenchmark_try ?L ?E ?bench ?c ?w) = Inl missing_token \<and>
     (\<exists>h. calls (snd (writeBenchmark_try ?L ?E ?bench ?c ?w))
        = h @ [GitCmd [''commit'', ''-m'', ''add Benchmark (cargo) benchmark result for c2'']]) \<and>
     filter is_remote_write (calls (snd (writeBenchmark_try ?L ?E ?bench ?c ?w))) = []"
    by (simp add: example_world_def)
  let ?same = "entry_of ''c2'' Cargo [bench_of ''fib'' 100]"
  let ?p = "path_join ?L (benchmarkDataDirPath ?c) ''data.js''"
  let ?w1 = "snd (writeBenchmark_fetch ?E ?c ?w)"
  let ?w2 = "snd (loadDataJson ?L ?E ?p ?w1)"
  let ?data = "example_doc\<lparr>lastUpdate := 2, repoUrl := ''https://github.com/user/repo'',
                 entries := (entries example_doc)(''Benchmark'' \<mapsto>
                    [entry_of ''c1'' Cargo [bench_of ''fib'' 100], ?same])\<rparr>"
  let ?w3 = "snd (writeBenchmark_commit ?L ?E ?c ?same ?p ?data ?w2)"
  have z: "writeBenchmark_fetch ?E ?c ?w = (Inr (), ?w1) \<and>
          loadDataJson ?L ?E ?p ?w1 = (Inr example_doc, ?w2) \<and>
          addBenchmarkResult (inherited_property ?L) (date_now ?E (calls ?w2)) (htmlUrl_of ?E)
            (config_name ?c) ?same example_doc = Inr (?data, Some (entry_of ''c1'' Cargo [bench_of ''fib'' 100])) \<and>
          writeBenchmark_commit ?L ?E ?c ?same ?p ?data ?w2 = (Inr (), ?w3) \<and>
          findAlerts ?L ?same (entry_of ''c1'' Cargo [bench_of ''fib'' 100]) (alertThreshold ?c) = []"
    by (simp add: example_run_defs prod_eq_iff example_json_text)
  from missing_token_raised_late [OF a b c, THEN conjunct2, THEN conjunct1, rule_format, OF z]
  have "fst (writeBenchmark_try ?L ?E ?same ?c ?w) = Inr ()"
    by simp
  with first show ?thesis by simp
qed

end
